theory Spec2Isabelle
  imports Main "HOL-Library.Word" "HOL-Library.Signed_Division"
begin

section \<open>DNNMark layers: a shallow embedding of core/include/dnn_layer.h\<close>

text \<open>
  The header defines the class template \<open>Layer<T>\<close> and its subclass
  \<open>ConvolutionLayer<T>\<close>. Every member function becomes a function on an explicit
  state: the object itself (a record of its data members) and the world outside it (the
  \<open>DataManager\<close> singleton, the device memory and the sequence of calls the layer has
  made into the CUDA runtime and cuDNN). A call that aborts the process (a failed
  \<open>CUDA_CALL\<close> or \<open>CUDNN_CALL\<close>, a trap, a read through a pointer that was never
  set) is an \<open>Inl\<close> result. Data members are written without the trailing
  underscore of the source (\<open>num_inputs\<close> is the member \<open>num_inputs_\<close>); the
  member \<open>type_\<close> is \<open>layer_type\<close>, and the extents \<open>n_\<close>, \<open>c_\<close>, \<open>h_\<close>,
  \<open>w_\<close> of a \<open>DataDim\<close> are \<open>dim_n\<close>, \<open>dim_c\<close>, \<open>dim_h\<close>, \<open>dim_w\<close>.
\<close>

subsection \<open>Machine integers\<close>

text \<open>
  \<open>int\<close> is 32 bits wide and \<open>size_t\<close> 64 bits on the platforms CUDA supports.
  Addition, subtraction and multiplication of \<open>int\<close> are modelled by the two's-complement
  result (the word operations); \<open>sint\<close> reads a word as the signed value.
\<close>

type_synonym cint = "32 word"
type_synonym size_t = "64 word"

datatype error =
    OutOfDeviceMemory
  | InvalidHandle
  | AlgorithmSelectionFailed
  | WorkspaceQueryFailed
  | PrimitiveFailed
  | NotReady
  | ArithmeticFault
  | MemoryFault

text \<open>
  The first four errors and \<open>NotReady\<close> are the ones the specification names;
  \<open>PrimitiveFailed\<close> is a forward-convolution call whose status \<open>CUDNN_CALL\<close>
  rejects; \<open>ArithmeticFault\<close> is the trap of an integer division (by zero, or of
  \<open>INT_MIN\<close> by \<open>-1\<close>); \<open>MemoryFault\<close> is a read of a member that no constructor
  or earlier call has set, or of a vector element out of range.
\<close>

text \<open>The \<open>/\<close> of C++ on \<open>int\<close>: the quotient is truncated towards zero.\<close>

definition int_div :: "cint \<Rightarrow> cint \<Rightarrow> error + cint" where
  "int_div a b =
     (if b = 0 \<or> (sint a = - (2 ^ 31) \<and> sint b = - 1) then Inl ArithmeticFault
      else Inr (word_of_int (sint a sdiv sint b)))"

text \<open>The implicit conversion of an \<open>int\<close> argument to \<open>size_t\<close> (sign extension).\<close>

definition to_size_t :: "cint \<Rightarrow> size_t" where
  "to_size_t x = scast x"

text \<open>\<open>v[i]\<close> on a \<open>std::vector\<close>.\<close>

definition at :: "'a list \<Rightarrow> nat \<Rightarrow> error + 'a" where
  "at v i = (if i < length v then Inr (v ! i) else Inl MemoryFault)"

text \<open>Sequencing: the first failure ends the run, as the abort of the process does.\<close>

definition and_then :: "error + 'a \<Rightarrow> ('a \<Rightarrow> error + 'b) \<Rightarrow> error + 'b" where
  "and_then m f = (case m of Inl e \<Rightarrow> Inl e | Inr x \<Rightarrow> f x)"

subsection \<open>Types declared in headers outside this file\<close>

datatype LayerType = CONVOLUTION | POOLING | ACTIVIATION | LRN | FC | SOFTMAX

text \<open>
  Modelled from the spec: \<open>DataDim\<close> (dnn_param.h is absent) is the ShapeDescriptor
  \<open>{count, channels, height, width}\<close>; the members the layer reads are \<open>n_\<close>, \<open>c_\<close>,
  \<open>h_\<close> and \<open>w_\<close>, used as \<open>int\<close>.
\<close>

record DataDim =
  dim_n :: cint
  dim_c :: cint
  dim_h :: cint
  dim_w :: cint

text \<open>
  Modelled from the spec: \<open>ConvolutionParam\<close> (dnn_param.h is absent) holds kernel size,
  stride, padding, output-channel count and the algorithm-selection preference; the
  members are the ones the layer reads.
\<close>

record ConvolutionParam =
  output_num :: cint
  pad_h :: cint
  pad_w :: cint
  stride_u :: cint
  stride_v :: cint
  kernel_size_h :: cint
  kernel_size_w :: cint
  conv_fwd_pref :: nat

text \<open>
  Modelled from the spec: \<open>DataTensor<T>\<close> (dnn_utility.h is absent) is the tensor
  descriptor; \<open>Set\<close> records the four extents, and a descriptor that was never set is
  \<open>None\<close>.
\<close>

type_synonym DataTensor = "(cint \<times> cint \<times> cint \<times> cint) option"

definition DataTensor_Set :: "cint \<Rightarrow> cint \<Rightarrow> cint \<Rightarrow> cint \<Rightarrow> DataTensor" where
  "DataTensor_Set n c h w = Some (n, c, h, w)"

text \<open>
  Modelled from the spec: \<open>ConvolutionDesc<T>\<close> (dnn_utility.h is absent) is the
  convolution descriptor built from the parameters and the input channel count.
\<close>

type_synonym ConvolutionDesc = "(ConvolutionParam \<times> cint) option"

definition ConvolutionDesc_Set :: "ConvolutionParam \<Rightarrow> cint \<Rightarrow> ConvolutionDesc" where
  "ConvolutionDesc_Set p num_channel = Some (p, num_channel)"

text \<open>
  Modelled from the spec: \<open>DataType<T>::one\<close> and \<open>DataType<T>::zero\<close>
  (dnn_utility.h is absent) are the unit scale-and-accumulate coefficients
  \<open>alpha = 1\<close> and \<open>beta = 0\<close>.
\<close>

definition DataType_one :: int where
  "DataType_one = 1"

definition DataType_zero :: int where
  "DataType_zero = 0"

subsection \<open>The world outside the layer\<close>

text \<open>The arguments of one \<open>cudnnConvolutionForward\<close> call, in the order of the call.\<close>

record ForwardCall =
  fc_alpha :: int
  fc_bottom_desc :: DataTensor
  fc_bottom :: nat
  fc_filter :: ConvolutionDesc
  fc_weights :: nat
  fc_conv :: ConvolutionDesc
  fc_algo :: nat
  fc_workspace :: nat
  fc_workspace_size :: size_t
  fc_beta :: int
  fc_top_desc :: DataTensor
  fc_top :: nat

text \<open>The calls the layer itself makes into the CUDA runtime, cuDNN and the data filler.\<close>

datatype event =
    EvMalloc size_t nat
  | EvFree nat
  | EvFiller nat
  | EvProfilerStart
  | EvProfilerStop
  | EvConvolutionForward ForwardCall

text \<open>
  \<open>sizeof_T\<close> is the size of the template parameter \<open>T\<close>. The three functions are the
  answers of the external library: the algorithm query, the workspace-size query
  (\<open>None\<close> is a status other than success) and the status of the forward primitive.
\<close>

record Env =
  sizeof_T :: nat
  cudnnGetConvolutionForwardAlgorithm ::
    "DataTensor \<Rightarrow> ConvolutionDesc \<Rightarrow> ConvolutionDesc \<Rightarrow> DataTensor \<Rightarrow> nat \<Rightarrow> int
       \<Rightarrow> nat option"
  cudnnGetConvolutionForwardWorkspaceSize ::
    "DataTensor \<Rightarrow> ConvolutionDesc \<Rightarrow> ConvolutionDesc \<Rightarrow> DataTensor \<Rightarrow> nat
       \<Rightarrow> size_t option"
  cudnnConvolutionForward :: "ForwardCall \<Rightarrow> bool"

text \<open>
  Modelled from the spec: the BufferRegistry (\<open>DataManager<T>\<close>, data_manager.h is
  absent) is a mapping from handle to Buffer with a monotonically increasing handle
  counter; here \<open>gpu_data_pool\<close> lists the live handles with the size of their buffer in
  elements, in creation order, and \<open>num_data_chunks\<close> is the counter. The device has
  \<open>dev_free\<close> bytes left; \<open>dev_live\<close> lists the blocks handed out by \<open>cudaMalloc\<close>
  (address and size) and \<open>dev_next\<close> is the next fresh address. \<open>trace\<close> is the
  sequence of calls made so far.
\<close>

record World =
  gpu_data_pool :: "(nat \<times> nat) list"
  num_data_chunks :: nat
  dev_free :: nat
  dev_live :: "(nat \<times> nat) list"
  dev_next :: nat
  trace :: "event list"

text \<open>
  Modelled from the spec: \<open>CreateBuffer(sizeInElements) -> handle\<close> allocates device
  memory of the requested size, fails with \<open>OutOfDeviceMemory\<close> if the accelerator
  cannot satisfy the request, and never returns a handle aliasing a live buffer.
\<close>

definition CreateData :: "Env \<Rightarrow> size_t \<Rightarrow> World \<Rightarrow> error + (nat \<times> World)" where
  "CreateData E sz W =
     (if dev_free W < unat sz * sizeof_T E then Inl OutOfDeviceMemory
      else Inr (num_data_chunks W,
                W\<lparr>gpu_data_pool := gpu_data_pool W @ [(num_data_chunks W, unat sz)],
                  num_data_chunks := Suc (num_data_chunks W),
                  dev_free := dev_free W - unat sz * sizeof_T E\<rparr>))"

text \<open>
  Modelled from the spec: \<open>GetBuffer(handle) -> Buffer&\<close> returns the buffer for a valid
  handle and fails with \<open>InvalidHandle\<close> otherwise. A \<open>Data<T> *\<close> is represented by the
  handle of the buffer it points to.
\<close>

definition GetData :: "nat \<Rightarrow> World \<Rightarrow> error + nat" where
  "GetData chunk_id W =
     (case map_of (gpu_data_pool W) chunk_id of
        None \<Rightarrow> Inl InvalidHandle
      | Some _ \<Rightarrow> Inr chunk_id)"

text \<open>
  Modelled from the spec: the device memory allocate and free primitives of the
  accelerator runtime, wrapped in \<open>CUDA_CALL\<close>. An allocation that does not fit fails
  with \<open>OutOfDeviceMemory\<close>; freeing an address that is not live fails with
  \<open>InvalidHandle\<close>.
\<close>

definition cudaMalloc :: "size_t \<Rightarrow> World \<Rightarrow> error + (nat \<times> World)" where
  "cudaMalloc sz W =
     (if dev_free W < unat sz then Inl OutOfDeviceMemory
      else Inr (dev_next W,
                W\<lparr>dev_free := dev_free W - unat sz,
                  dev_live := dev_live W @ [(dev_next W, unat sz)],
                  dev_next := Suc (dev_next W),
                  trace := trace W @ [EvMalloc sz (dev_next W)]\<rparr>))"

definition cudaFree :: "nat \<Rightarrow> World \<Rightarrow> error + World" where
  "cudaFree p W =
     (case map_of (dev_live W) p of
        None \<Rightarrow> Inl InvalidHandle
      | Some sz \<Rightarrow>
          Inr (W\<lparr>dev_free := dev_free W + sz,
                 dev_live := filter (\<lambda>b. fst b \<noteq> p) (dev_live W),
                 trace := trace W @ [EvFree p]\<rparr>))"

definition Filler :: "nat \<Rightarrow> World \<Rightarrow> World" where
  "Filler p W = W\<lparr>trace := trace W @ [EvFiller p]\<rparr>"

definition cudaProfilerStart :: "World \<Rightarrow> World" where
  "cudaProfilerStart W = W\<lparr>trace := trace W @ [EvProfilerStart]\<rparr>"

definition cudaProfilerStop :: "World \<Rightarrow> World" where
  "cudaProfilerStop W = W\<lparr>trace := trace W @ [EvProfilerStop]\<rparr>"

subsection \<open>class Layer\<close>

text \<open>
  The data members of \<open>Layer<T>\<close> (the context pointer \<open>p_handle\<close> is the \<open>Env\<close>
  argument of the functions, \<open>data_manager\<close> the \<open>World\<close>). The constructor leaves
  \<open>layer_type\<close> unset, hence the option.
\<close>

record Layer =
  has_learnable_params :: bool
  layer_type :: "LayerType option"
  layer_id :: cint
  layer_name :: string
  previous_layer_name :: string
  input_dim :: DataDim
  bottom_desc :: DataTensor
  num_inputs :: cint
  bottoms :: "nat list"
  bottom_chunk_ids :: "nat list"
  bottom_diffs :: "nat list"
  bottom_diff_chunk_ids :: "nat list"

text \<open>The constructor \<open>Layer(Handle *p_handle)\<close>; \<open>DataDim()\<close> is the all-zero shape.\<close>

definition Layer_new :: Layer where
  "Layer_new =
     \<lparr>has_learnable_params = False, layer_type = None, layer_id = 0,
      layer_name = [], previous_layer_name = [],
      input_dim = \<lparr>dim_n = 0, dim_c = 0, dim_h = 0, dim_w = 0\<rparr>,
      bottom_desc = None, num_inputs = 1,
      bottoms = [], bottom_chunk_ids = [],
      bottom_diffs = [], bottom_diff_chunk_ids = []\<rparr>"

definition setLayerId :: "cint \<Rightarrow> 'a Layer_scheme \<Rightarrow> 'a Layer_scheme" where
  "setLayerId layer_id' L = L\<lparr>layer_id := layer_id'\<rparr>"

definition getLayerId :: "'a Layer_scheme \<Rightarrow> cint" where
  "getLayerId L = layer_id L"

text \<open>
  \<open>void setLayerType(LayerType type) { type = type_; }\<close> assigns the member to the
  by-value parameter, which dies with the call: the object is returned as it was.
\<close>

definition setLayerType :: "LayerType \<Rightarrow> 'a Layer_scheme \<Rightarrow> 'a Layer_scheme" where
  "setLayerType type L = (let type = layer_type L in L)"

definition getLayerType :: "'a Layer_scheme \<Rightarrow> LayerType option" where
  "getLayerType L = layer_type L"

text \<open>The test both \<open>Setup\<close> functions make on the input shape.\<close>

definition standalone :: "DataDim \<Rightarrow> bool" where
  "standalone d \<longleftrightarrow> dim_n d \<noteq> 0 \<and> dim_c d \<noteq> 0 \<and> dim_h d \<noteq> 0 \<and> dim_w d \<noteq> 0"

text \<open>One iteration of the loop of \<open>Layer::Setup\<close>, for the index \<open>i\<close>.\<close>

definition Setup_bottom ::
  "Env \<Rightarrow> cint \<Rightarrow> nat \<Rightarrow> 'a Layer_scheme \<times> World \<Rightarrow> error + ('a Layer_scheme \<times> World)" where
  "Setup_bottom E bottom_size i S =
     (case S of (L, W) \<Rightarrow>
      and_then (CreateData E (to_size_t bottom_size) W) (\<lambda>(id1, W1).
      let L1 = L\<lparr>bottom_chunk_ids := bottom_chunk_ids L @ [id1]\<rparr> in
      and_then (at (bottom_chunk_ids L1) i) (\<lambda>c1.
      and_then (GetData c1 W1) (\<lambda>p1.
      let L2 = L1\<lparr>bottoms := bottoms L1 @ [p1]\<rparr> in
      and_then (CreateData E (to_size_t bottom_size) W1) (\<lambda>(id2, W2).
      let L3 = L2\<lparr>bottom_diff_chunk_ids := bottom_diff_chunk_ids L2 @ [id2]\<rparr> in
      and_then (at (bottom_diff_chunk_ids L3) i) (\<lambda>c2.
      and_then (GetData c2 W2) (\<lambda>p2.
      Inr (L3\<lparr>bottom_diffs := bottom_diffs L3 @ [p2]\<rparr>, W2))))))))"

text \<open>\<open>for (int i = 0; i < num_inputs_; i++)\<close>, entered at \<open>i\<close>.\<close>

function Setup_bottoms ::
  "Env \<Rightarrow> cint \<Rightarrow> nat \<Rightarrow> 'a Layer_scheme \<times> World \<Rightarrow> error + ('a Layer_scheme \<times> World)" where
  "Setup_bottoms E bottom_size i S =
     (if int i < sint (num_inputs (fst S)) then
        (case Setup_bottom E bottom_size i S of
           Inl e \<Rightarrow> Inl e
         | Inr S' \<Rightarrow> Setup_bottoms E bottom_size (Suc i) S')
      else Inr S)"
  by pat_completeness auto

lemma Setup_bottom_num_inputs:
  "Setup_bottom E bottom_size i S = Inr S' \<Longrightarrow> num_inputs (fst S') = num_inputs (fst S)"
  by (auto simp: Setup_bottom_def and_then_def Let_def split: prod.splits sum.splits)

termination Setup_bottoms
  by (relation "measure (\<lambda>(E, b, i, S). nat (sint (num_inputs (fst S)) - int i))")
     (auto dest: Setup_bottom_num_inputs)

text \<open>\<open>virtual void Setup()\<close> of the base class.\<close>

definition Layer_Setup ::
  "Env \<Rightarrow> 'a Layer_scheme \<times> World \<Rightarrow> error + ('a Layer_scheme \<times> World)" where
  "Layer_Setup E S =
     (case S of (L, W) \<Rightarrow>
      if dim_n (input_dim L) \<noteq> 0 \<and> dim_c (input_dim L) \<noteq> 0 \<and>
         dim_h (input_dim L) \<noteq> 0 \<and> dim_w (input_dim L) \<noteq> 0 then
        let L1 = L\<lparr>bottom_desc := DataTensor_Set (dim_n (input_dim L)) (dim_c (input_dim L))
                                    (dim_h (input_dim L)) (dim_w (input_dim L))\<rparr>;
            bottom_size = dim_n (input_dim L1) * dim_c (input_dim L1) *
                          dim_h (input_dim L1) * dim_w (input_dim L1)
        in Setup_bottoms E bottom_size 0 (L1, W)
      else Inr (L, W))"

text \<open>\<open>virtual void ForwardPropagation() {}\<close> and \<open>virtual void BackwardPropagation() {}\<close>.\<close>

definition Layer_ForwardPropagation ::
  "Env \<Rightarrow> 'a Layer_scheme \<times> World \<Rightarrow> error + ('a Layer_scheme \<times> World)" where
  "Layer_ForwardPropagation E S = Inr S"

definition Layer_BackwardPropagation ::
  "Env \<Rightarrow> 'a Layer_scheme \<times> World \<Rightarrow> error + ('a Layer_scheme \<times> World)" where
  "Layer_BackwardPropagation E S = Inr S"

subsection \<open>class ConvolutionLayer\<close>

text \<open>
  The data members \<open>ConvolutionLayer<T>\<close> adds. The constructor sets neither the weight
  pointers and handles nor the algorithm, the workspace size and the workspace pointer:
  they are options, \<open>None\<close> until \<open>Setup\<close> assigns them. (The two backward workspace
  sizes are never read or written in this file.)
\<close>

record ConvolutionLayer = Layer +
  conv_param :: ConvolutionParam
  desc :: ConvolutionDesc
  num_outputs :: cint
  output_dim :: DataDim
  top_desc :: DataTensor
  tops :: "nat list"
  top_chunk_ids :: "nat list"
  top_diffs :: "nat list"
  top_diff_chunk_ids :: "nat list"
  weights :: "nat option"
  weights_chunk_id :: "nat option"
  weights_diff :: "nat option"
  weights_diff_chunk_id :: "nat option"
  fwd_algo :: "nat option"
  fwd_workspace_size :: "size_t option"
  workspace :: "nat option"

text \<open>
  The constructor \<open>ConvolutionLayer(Handle *p_handle)\<close>. What \<open>ConvolutionParam()\<close>
  sets is declared in dnn_param.h (absent): the default parameters are an argument.
\<close>

definition ConvolutionLayer_new :: "ConvolutionParam \<Rightarrow> ConvolutionLayer" where
  "ConvolutionLayer_new default_param =
     Layer.extend (Layer_new\<lparr>has_learnable_params := True\<rparr>)
       (ConvolutionLayer.fields default_param None (num_inputs Layer_new)
          \<lparr>dim_n = 0, dim_c = 0, dim_h = 0, dim_w = 0\<rparr> None [] [] [] []
          None None None None None None None)"

definition getConvParam :: "ConvolutionLayer \<Rightarrow> ConvolutionParam" where
  "getConvParam L = conv_param L"

text \<open>\<open>void ComputeOutputDim()\<close>.\<close>

definition ComputeOutputDim :: "ConvolutionLayer \<Rightarrow> error + ConvolutionLayer" where
  "ComputeOutputDim L =
     (let L1 = L\<lparr>output_dim := (output_dim L)\<lparr>dim_n := dim_n (input_dim L)\<rparr>\<rparr>;
          L2 = L1\<lparr>output_dim := (output_dim L1)\<lparr>dim_c := output_num (conv_param L1)\<rparr>\<rparr>
      in
      and_then (int_div (dim_h (input_dim L2) + 2 * pad_h (conv_param L2)
                           - kernel_size_h (conv_param L2))
                        (stride_u (conv_param L2))) (\<lambda>qh.
      let L3 = L2\<lparr>output_dim := (output_dim L2)\<lparr>dim_h := qh + 1\<rparr>\<rparr> in
      and_then (int_div (dim_w (input_dim L3) + 2 * pad_w (conv_param L3)
                           - kernel_size_w (conv_param L3))
                        (stride_v (conv_param L3))) (\<lambda>qw.
      Inr (L3\<lparr>output_dim := (output_dim L3)\<lparr>dim_w := qw + 1\<rparr>\<rparr>))))"

text \<open>One iteration of the loop over the outputs in \<open>ConvolutionLayer::Setup\<close>.\<close>

definition Setup_top ::
  "Env \<Rightarrow> cint \<Rightarrow> nat \<Rightarrow> ConvolutionLayer \<times> World \<Rightarrow> error + (ConvolutionLayer \<times> World)" where
  "Setup_top E top_size i S =
     (case S of (L, W) \<Rightarrow>
      and_then (CreateData E (to_size_t top_size) W) (\<lambda>(id1, W1).
      let L1 = L\<lparr>top_chunk_ids := top_chunk_ids L @ [id1]\<rparr> in
      and_then (at (top_chunk_ids L1) i) (\<lambda>c1.
      and_then (GetData c1 W1) (\<lambda>p1.
      let L2 = L1\<lparr>tops := tops L1 @ [p1]\<rparr> in
      and_then (CreateData E (to_size_t top_size) W1) (\<lambda>(id2, W2).
      let L3 = L2\<lparr>top_diff_chunk_ids := top_diff_chunk_ids L2 @ [id2]\<rparr> in
      and_then (at (top_diff_chunk_ids L3) i) (\<lambda>c2.
      and_then (GetData c2 W2) (\<lambda>p2.
      Inr (L3\<lparr>top_diffs := top_diffs L3 @ [p2]\<rparr>, W2))))))))"

text \<open>\<open>for (int i = 0; i < num_outputs_; i++)\<close>, entered at \<open>i\<close>.\<close>

function Setup_tops ::
  "Env \<Rightarrow> cint \<Rightarrow> nat \<Rightarrow> ConvolutionLayer \<times> World \<Rightarrow> error + (ConvolutionLayer \<times> World)" where
  "Setup_tops E top_size i S =
     (if int i < sint (num_outputs (fst S)) then
        (case Setup_top E top_size i S of
           Inl e \<Rightarrow> Inl e
         | Inr S' \<Rightarrow> Setup_tops E top_size (Suc i) S')
      else Inr S)"
  by pat_completeness auto

lemma Setup_top_num_outputs:
  "Setup_top E top_size i S = Inr S' \<Longrightarrow> num_outputs (fst S') = num_outputs (fst S)"
  by (auto simp: Setup_top_def and_then_def Let_def split: prod.splits sum.splits)

termination Setup_tops
  by (relation "measure (\<lambda>(E, b, i, S). nat (sint (num_outputs (fst S)) - int i))")
     (auto dest: Setup_top_num_outputs)

text \<open>The standalone branch of \<open>ConvolutionLayer::Setup\<close>: outputs, then the weights.\<close>

definition Setup_data ::
  "Env \<Rightarrow> ConvolutionLayer \<times> World \<Rightarrow> error + (ConvolutionLayer \<times> World)" where
  "Setup_data E S =
     (case S of (L, W) \<Rightarrow>
      and_then (ComputeOutputDim L) (\<lambda>L1.
      let L2 = L1\<lparr>top_desc := DataTensor_Set (dim_n (output_dim L1)) (dim_c (output_dim L1))
                                 (dim_h (output_dim L1)) (dim_w (output_dim L1))\<rparr>;
          top_size = dim_n (output_dim L2) * dim_c (output_dim L2) *
                     dim_h (output_dim L2) * dim_w (output_dim L2)
      in
      and_then (Setup_tops E top_size 0 (L2, W)) (\<lambda>(L3, W3).
      let weights_size = output_num (conv_param L3) * dim_c (input_dim L3) *
                         kernel_size_h (conv_param L3) * kernel_size_w (conv_param L3)
      in
      and_then (CreateData E (to_size_t weights_size) W3) (\<lambda>(id1, W4).
      let L4 = L3\<lparr>weights_chunk_id := Some id1\<rparr> in
      and_then (GetData id1 W4) (\<lambda>p1.
      let L5 = L4\<lparr>weights := Some p1\<rparr> in
      and_then (CreateData E (to_size_t weights_size) W4) (\<lambda>(id2, W5).
      let L6 = L5\<lparr>weights_diff_chunk_id := Some id2\<rparr> in
      and_then (GetData id2 W5) (\<lambda>p2.
      Inr (L6\<lparr>weights_diff := Some p2\<rparr>, W5))))))))"

text \<open>\<open>void Setup()\<close> of the convolution layer.\<close>

definition ConvolutionLayer_Setup ::
  "Env \<Rightarrow> ConvolutionLayer \<times> World \<Rightarrow> error + (ConvolutionLayer \<times> World)" where
  "ConvolutionLayer_Setup E S =
     and_then (Layer_Setup E S) (\<lambda>(L, W).
     let L1 = L\<lparr>desc := ConvolutionDesc_Set (conv_param L) (dim_c (input_dim L))\<rparr> in
     and_then (if dim_n (input_dim L1) \<noteq> 0 \<and> dim_c (input_dim L1) \<noteq> 0 \<and>
                  dim_h (input_dim L1) \<noteq> 0 \<and> dim_w (input_dim L1) \<noteq> 0
               then Setup_data E (L1, W) else Inr (L1, W)) (\<lambda>(L2, W2).
     case cudnnGetConvolutionForwardAlgorithm E (bottom_desc L2) (desc L2) (desc L2)
            (top_desc L2) (conv_fwd_pref (conv_param L2)) (- 1) of
       None \<Rightarrow> Inl AlgorithmSelectionFailed
     | Some algo \<Rightarrow>
     let L3 = L2\<lparr>fwd_algo := Some algo\<rparr> in
     (case cudnnGetConvolutionForwardWorkspaceSize E (bottom_desc L3) (desc L3) (desc L3)
            (top_desc L3) algo of
       None \<Rightarrow> Inl WorkspaceQueryFailed
     | Some ws \<Rightarrow>
     let L4 = L3\<lparr>fwd_workspace_size := Some ws\<rparr> in
     and_then (cudaMalloc ws W2) (\<lambda>(p, W3).
     Inr (L4\<lparr>workspace := Some p\<rparr>, W3)))))"

text \<open>A read of a member the constructor left unset.\<close>

definition member :: "'a option \<Rightarrow> error + 'a" where
  "member m = (case m of None \<Rightarrow> Inl MemoryFault | Some x \<Rightarrow> Inr x)"

text \<open>The first loop of \<open>ForwardPropagation\<close>: \<open>bottoms_[i]->Filler()\<close>.\<close>

function Fill_bottoms :: "nat \<Rightarrow> ConvolutionLayer \<times> World \<Rightarrow> error + (ConvolutionLayer \<times> World)" where
  "Fill_bottoms i S =
     (if int i < sint (num_inputs (fst S)) then
        (case at (bottoms (fst S)) i of
           Inl e \<Rightarrow> Inl e
         | Inr b \<Rightarrow> Fill_bottoms (Suc i) (fst S, Filler b (snd S)))
      else Inr S)"
  by pat_completeness auto
termination
  by (relation "measure (\<lambda>(i, S). nat (sint (num_inputs (fst S)) - int i))") auto

text \<open>One \<open>cudnnConvolutionForward\<close> call of the second loop, for the index \<open>i\<close>.\<close>

definition Forward_one ::
  "Env \<Rightarrow> nat \<Rightarrow> ConvolutionLayer \<times> World \<Rightarrow> error + (ConvolutionLayer \<times> World)" where
  "Forward_one E i S =
     (case S of (L, W) \<Rightarrow>
      and_then (at (bottoms L) i) (\<lambda>b.
      and_then (member (weights L)) (\<lambda>wp.
      and_then (member (fwd_algo L)) (\<lambda>algo.
      and_then (member (workspace L)) (\<lambda>ws.
      and_then (member (fwd_workspace_size L)) (\<lambda>ws_size.
      and_then (at (tops L) i) (\<lambda>t.
      let call = \<lparr>fc_alpha = DataType_one,
                  fc_bottom_desc = bottom_desc L, fc_bottom = b,
                  fc_filter = desc L, fc_weights = wp,
                  fc_conv = desc L,
                  fc_algo = algo, fc_workspace = ws, fc_workspace_size = ws_size,
                  fc_beta = DataType_zero,
                  fc_top_desc = top_desc L, fc_top = t\<rparr>
      in if cudnnConvolutionForward E call
         then Inr (L, W\<lparr>trace := trace W @ [EvConvolutionForward call]\<rparr>)
         else Inl PrimitiveFailed)))))))"

function Forward_all ::
  "Env \<Rightarrow> nat \<Rightarrow> ConvolutionLayer \<times> World \<Rightarrow> error + (ConvolutionLayer \<times> World)" where
  "Forward_all E i S =
     (if int i < sint (num_inputs (fst S)) then
        (case Forward_one E i S of
           Inl e \<Rightarrow> Inl e
         | Inr S' \<Rightarrow> Forward_all E (Suc i) S')
      else Inr S)"
  by pat_completeness auto

lemma Forward_one_layer:
  "Forward_one E i S = Inr S' \<Longrightarrow> fst S' = fst S"
  by (auto simp: Forward_one_def and_then_def Let_def split: prod.splits sum.splits if_splits)

termination Forward_all
  by (relation "measure (\<lambda>(E, i, S). nat (sint (num_inputs (fst S)) - int i))")
     (auto dest: Forward_one_layer)

text \<open>\<open>void ForwardPropagation()\<close> of the convolution layer.\<close>

definition ConvolutionLayer_ForwardPropagation ::
  "Env \<Rightarrow> ConvolutionLayer \<times> World \<Rightarrow> error + (ConvolutionLayer \<times> World)" where
  "ConvolutionLayer_ForwardPropagation E S =
     (case S of (L, W) \<Rightarrow>
      and_then (member (weights L)) (\<lambda>wp.
      and_then (Fill_bottoms 0 (L, Filler wp W)) (\<lambda>(L1, W1).
      and_then (Forward_all E 0 (L1, cudaProfilerStart W1)) (\<lambda>(L2, W2).
      let W3 = cudaProfilerStop W2 in
      and_then (member (workspace L2)) (\<lambda>ws.
      and_then (cudaFree ws W3) (\<lambda>W4.
      Inr (L2, W4)))))))"

text \<open>\<open>void BackwardPropagation() { }\<close>.\<close>

definition ConvolutionLayer_BackwardPropagation ::
  "Env \<Rightarrow> ConvolutionLayer \<times> World \<Rightarrow> error + (ConvolutionLayer \<times> World)" where
  "ConvolutionLayer_BackwardPropagation E S = Inr S"

subsection \<open>Closed forms and concrete instances\<close>

text \<open>
  The handles and registry entries a \<open>Setup\<close> loop creates: each iteration creates a
  data buffer and then its gradient buffer, so the data handles are every second handle
  from the first one on.
\<close>

definition fresh_ids :: "nat \<Rightarrow> nat \<Rightarrow> nat list" where
  "fresh_ids h k = map (\<lambda>j. h + 2 * j) [0..<k]"

definition fresh_pool :: "nat \<Rightarrow> nat \<Rightarrow> nat \<Rightarrow> (nat \<times> nat) list" where
  "fresh_pool h n sz = map (\<lambda>j. (h + j, sz)) [0..<n]"

text \<open>
  The output extents as the specification words them, on mathematical integers with
  floor division.
\<close>

definition floor_out_h :: "ConvolutionLayer \<Rightarrow> int" where
  "floor_out_h L =
     (sint (dim_h (input_dim L)) + 2 * sint (pad_h (conv_param L))
        - sint (kernel_size_h (conv_param L))) div sint (stride_u (conv_param L)) + 1"

definition floor_out_w :: "ConvolutionLayer \<Rightarrow> int" where
  "floor_out_w L =
     (sint (dim_w (input_dim L)) + 2 * sint (pad_w (conv_param L))
        - sint (kernel_size_w (conv_param L))) div sint (stride_v (conv_param L)) + 1"

text \<open>
  A library that answers every algorithm query with \<open>algo\<close> and every workspace query
  with \<open>ws\<close> and accepts every forward call, for elements of \<open>elem\<close> bytes; and the
  world before any layer exists, with \<open>bytes\<close> of device memory.
\<close>

definition Env_const :: "nat \<Rightarrow> nat \<Rightarrow> size_t \<Rightarrow> Env" where
  "Env_const elem algo ws =
     \<lparr>sizeof_T = elem,
      cudnnGetConvolutionForwardAlgorithm = (\<lambda>x f c y pref limit. Some algo),
      cudnnGetConvolutionForwardWorkspaceSize = (\<lambda>x f c y a. Some ws),
      cudnnConvolutionForward = (\<lambda>call. True)\<rparr>"

definition World_new :: "nat \<Rightarrow> World" where
  "World_new bytes =
     \<lparr>gpu_data_pool = [], num_data_chunks = 0, dev_free = bytes,
      dev_live = [], dev_next = 0, trace = []\<rparr>"

text \<open>A 1x1 input under a 4x4 kernel with stride 2 and no padding.\<close>

definition small_input_layer :: ConvolutionLayer where
  "small_input_layer =
     (ConvolutionLayer_new
        \<lparr>output_num = 1, pad_h = 0, pad_w = 0, stride_u = 2, stride_v = 2,
         kernel_size_h = 4, kernel_size_w = 4, conv_fwd_pref = 0\<rparr>)
     \<lparr>input_dim := \<lparr>dim_n = 1, dim_c = 1, dim_h = 1, dim_w = 1\<rparr>\<rparr>"

text \<open>The specification's example: input (1, 3, 32, 32), kernel 5x5, pad 2, stride 1.\<close>

definition padded_layer :: ConvolutionLayer where
  "padded_layer =
     (ConvolutionLayer_new
        \<lparr>output_num = 8, pad_h = 2, pad_w = 2, stride_u = 1, stride_v = 1,
         kernel_size_h = 5, kernel_size_w = 5, conv_fwd_pref = 0\<rparr>)
     \<lparr>input_dim := \<lparr>dim_n = 1, dim_c = 3, dim_h = 32, dim_w = 32\<rparr>\<rparr>"

text \<open>A base layer in standalone mode with input (2, 3, 8, 8).\<close>

definition standalone_layer :: Layer where
  "standalone_layer = Layer_new\<lparr>input_dim := \<lparr>dim_n = 2, dim_c = 3, dim_h = 8, dim_w = 8\<rparr>\<rparr>"

text \<open>
  Shapes whose flat size does not fit an \<open>int\<close>: a base layer with input
  (65536, 65536, 1, 1), and a convolution layer with 65536 input channels, 65536 output
  channels and a 1x1 kernel.
\<close>

definition wide_layer :: Layer where
  "wide_layer = Layer_new\<lparr>input_dim := \<lparr>dim_n = 65536, dim_c = 65536, dim_h = 1, dim_w = 1\<rparr>\<rparr>"

definition wide_weights_layer :: ConvolutionLayer where
  "wide_weights_layer =
     (ConvolutionLayer_new
        \<lparr>output_num = 65536, pad_h = 0, pad_w = 0, stride_u = 1, stride_v = 1,
         kernel_size_h = 1, kernel_size_w = 1, conv_fwd_pref = 0\<rparr>)
     \<lparr>input_dim := \<lparr>dim_n = 1, dim_c = 65536, dim_h = 1, dim_w = 1\<rparr>\<rparr>"

text \<open>
  The specification's end-to-end scenario: a convolution layer with input (2, 3, 8, 8),
  kernel 3x3, stride 1, pad 1 and 4 output channels, as constructed and configured
  (\<open>scenario_layer\<close>), and the layer and the world that \<open>Setup\<close> makes of it on a
  device of 10000 bytes, under a library that selects algorithm 7 and asks for no
  workspace (\<open>scenario_ready\<close>, \<open>scenario_world\<close>).
\<close>

definition scenario_layer :: ConvolutionLayer where
  "scenario_layer =
     (ConvolutionLayer_new
        \<lparr>output_num = 4, pad_h = 1, pad_w = 1, stride_u = 1, stride_v = 1,
         kernel_size_h = 3, kernel_size_w = 3, conv_fwd_pref = 0\<rparr>)
     \<lparr>input_dim := \<lparr>dim_n = 2, dim_c = 3, dim_h = 8, dim_w = 8\<rparr>\<rparr>"

definition scenario_ready :: ConvolutionLayer where
  "scenario_ready =
     scenario_layer
         \<lparr>bottom_desc := Some (2, 3, 8, 8), bottoms := [0],
          bottom_chunk_ids := [0], bottom_diffs := [1],
          bottom_diff_chunk_ids := [1],
          desc := Some (conv_param scenario_layer, 3),
          output_dim := \<lparr>dim_n = 2, dim_c = 4, dim_h = 8, dim_w = 8\<rparr>,
          top_desc := Some (2, 4, 8, 8), tops := [2], top_chunk_ids := [2],
          top_diffs := [3], top_diff_chunk_ids := [3], weights := Some 4,
          weights_chunk_id := Some 4, weights_diff := Some 5,
          weights_diff_chunk_id := Some 5, fwd_algo := Some 7,
          fwd_workspace_size := Some 0, workspace := Some 0\<rparr>"

definition scenario_world :: World where
  "scenario_world =
      \<lparr>gpu_data_pool =
         [(0, 384), (1, 384), (2, 512), (3, 512), (4, 108), (5, 108)],
         num_data_chunks = 6, dev_free = 1968, dev_live = [(0, 0)],
         dev_next = 1, trace = [EvMalloc 0 0]\<rparr>"

text \<open>
  The arguments of the forward call for input \<open>i\<close>, given the weight pointer, the
  algorithm, the workspace pointer and the workspace size.
\<close>

definition forward_call ::
  "ConvolutionLayer \<Rightarrow> nat \<Rightarrow> nat \<Rightarrow> nat \<Rightarrow> size_t \<Rightarrow> nat \<Rightarrow> ForwardCall" where
  "forward_call L wp algo ws ws_size i =
     \<lparr>fc_alpha = 1,
      fc_bottom_desc = bottom_desc L, fc_bottom = bottoms L ! i,
      fc_filter = desc L, fc_weights = wp,
      fc_conv = desc L,
      fc_algo = algo, fc_workspace = ws, fc_workspace_size = ws_size,
      fc_beta = 0,
      fc_top_desc = top_desc L, fc_top = tops L ! i\<rparr>"

section \<open>Properties\<close>

subsection \<open>Sequencing and integer division\<close>

declare Setup_bottoms.simps [simp del] Setup_tops.simps [simp del]
  Fill_bottoms.simps [simp del] Forward_all.simps [simp del]

lemma and_then_simps [simp]:
  "and_then (Inl e) f = Inl e"
  "and_then (Inr x) f = f x"
  by (simp_all add: and_then_def)

lemma and_then_Inr_iff:
  "and_then m f = Inr y \<longleftrightarrow> (\<exists>x. m = Inr x \<and> f x = Inr y)"
  by (cases m) simp_all

lemma sdiv_floor: "0 \<le> (a::int) \<Longrightarrow> 0 < b \<Longrightarrow> a sdiv b = a div b"
  by (cases "a = 0") (simp_all add: signed_divide_int_eq_divide_int)

lemma abs_sdiv: "\<bar>(a::int) sdiv b\<bar> = \<bar>a\<bar> div \<bar>b\<bar>"
  by (cases "a = 0"; cases "b = 0")
     (simp_all add: signed_divide_int_def abs_mult abs_sgn_eq pos_imp_zdiv_nonneg_iff)

lemma sdiv_range:
  fixes a b :: int
  assumes a: "- (2 ^ 31) \<le> a" "a < 2 ^ 31" and b: "b \<noteq> 0"
    and nt: "\<not> (a = - (2 ^ 31) \<and> b = - 1)"
  shows "- (2 ^ 31) \<le> a sdiv b \<and> a sdiv b < 2 ^ 31"
proof -
  consider "b = 1" | "b = - 1" | "2 \<le> \<bar>b\<bar>"
    using b by linarith
  then show ?thesis
  proof cases
    case 1
    with a show ?thesis by simp
  next
    case 2
    with a nt show ?thesis by simp
  next
    case 3
    have "\<bar>a sdiv b\<bar> = \<bar>a\<bar> div \<bar>b\<bar>"
      by (rule abs_sdiv)
    also have "\<dots> \<le> \<bar>a\<bar> div 2"
      using 3 by (intro zdiv_mono2) simp_all
    also have "\<dots> \<le> 2 ^ 30"
      using a by simp
    finally show ?thesis by (auto simp: abs_le_iff)
  qed
qed

lemma int_div_Inr:
  "b \<noteq> 0 \<Longrightarrow> \<not> (sint a = - (2 ^ 31) \<and> sint b = - 1) \<Longrightarrow>
   int_div a b = Inr (word_of_int (sint a sdiv sint b))"
  by (simp add: int_div_def)

lemma sint_int_div:
  assumes "int_div a b = Inr q"
  shows "sint q = sint a sdiv sint b"
proof -
  from assms have b: "sint b \<noteq> 0" and nt: "\<not> (sint a = - (2 ^ 31) \<and> sint b = - 1)"
    and q: "q = word_of_int (sint a sdiv sint b)"
    by (auto simp: int_div_def signed_eq_0_iff split: if_splits)
  have "- (2 ^ 31) \<le> sint a" "sint a < 2 ^ 31"
    using sint_ge [of a] sint_lt [of a] by simp_all
  from sdiv_range [OF this b nt] show ?thesis
    unfolding q by (simp add: sint_sbintrunc' signed_take_bit_int_eq_self_iff)
qed

lemmas layer_new_defs =
  ConvolutionLayer_new_def Layer_new_def Layer.extend_def ConvolutionLayer.fields_def

subsection \<open>Output shape inference\<close>

text \<open>
  C1 (as amended). \<open>ComputeOutputDim\<close> copies the batch count, takes the channel count
  from the parameters, and sets each spatial extent to the quotient of
  \<open>in + 2 * pad - kernel\<close> by the stride plus one, all in 32-bit \<open>int\<close> arithmetic,
  provided the stride is not zero and the division does not overflow. The quotient is
  the one truncated towards zero; it is the floor of the specification whenever the
  dividend is not negative and the stride is positive.
\<close>

theorem ComputeOutputDim_truncates:
  fixes L :: ConvolutionLayer
  defines "num_h \<equiv> dim_h (input_dim L) + 2 * pad_h (conv_param L) - kernel_size_h (conv_param L)"
    and "num_w \<equiv> dim_w (input_dim L) + 2 * pad_w (conv_param L) - kernel_size_w (conv_param L)"
  assumes "stride_u (conv_param L) \<noteq> 0" and "stride_v (conv_param L) \<noteq> 0"
    and "\<not> (sint num_h = - (2 ^ 31) \<and> sint (stride_u (conv_param L)) = - 1)"
    and "\<not> (sint num_w = - (2 ^ 31) \<and> sint (stride_v (conv_param L)) = - 1)"
  shows "\<exists>qh qw.
           ComputeOutputDim L =
             Inr (L\<lparr>output_dim := \<lparr>dim_n = dim_n (input_dim L),
                                   dim_c = output_num (conv_param L),
                                   dim_h = qh + 1, dim_w = qw + 1\<rparr>\<rparr>) \<and>
           sint qh = sint num_h sdiv sint (stride_u (conv_param L)) \<and>
           sint qw = sint num_w sdiv sint (stride_v (conv_param L)) \<and>
           (0 \<le> sint num_h \<and> 0 < sint (stride_u (conv_param L)) \<longrightarrow>
              sint qh = sint num_h div sint (stride_u (conv_param L))) \<and>
           (0 \<le> sint num_w \<and> 0 < sint (stride_v (conv_param L)) \<longrightarrow>
              sint qw = sint num_w div sint (stride_v (conv_param L)))"
proof -
  obtain qh where qh: "int_div num_h (stride_u (conv_param L)) = Inr qh"
    using assms(3,5) by (simp add: int_div_Inr)
  obtain qw where qw: "int_div num_w (stride_v (conv_param L)) = Inr qw"
    using assms(4,6) by (simp add: int_div_Inr)
  have "ComputeOutputDim L =
          Inr (L\<lparr>output_dim := \<lparr>dim_n = dim_n (input_dim L),
                                dim_c = output_num (conv_param L),
                                dim_h = qh + 1, dim_w = qw + 1\<rparr>\<rparr>)"
    using qh qw unfolding num_h_def num_w_def
    by (simp add: ComputeOutputDim_def Let_def)
  with sint_int_div [OF qh] sint_int_div [OF qw] show ?thesis
    by (intro exI [of _ qh] exI [of _ qw]) (simp add: sdiv_floor)
qed

theorem ComputeOutputDim_truncates_witness:
  "stride_u (conv_param padded_layer) \<noteq> 0 \<and> stride_v (conv_param padded_layer) \<noteq> 0 \<and>
   ComputeOutputDim padded_layer =
     Inr (padded_layer\<lparr>output_dim := \<lparr>dim_n = 1, dim_c = 8, dim_h = 32, dim_w = 32\<rparr>\<rparr>)"
proof -
  have h: "stride_u (conv_param padded_layer) \<noteq> 0" "stride_v (conv_param padded_layer) \<noteq> 0"
    "\<not> (sint (dim_h (input_dim padded_layer) + 2 * pad_h (conv_param padded_layer)
              - kernel_size_h (conv_param padded_layer)) = - (2 ^ 31) \<and>
        sint (stride_u (conv_param padded_layer)) = - 1)"
    "\<not> (sint (dim_w (input_dim padded_layer) + 2 * pad_w (conv_param padded_layer)
              - kernel_size_w (conv_param padded_layer)) = - (2 ^ 31) \<and>
        sint (stride_v (conv_param padded_layer)) = - 1)"
    by (simp_all add: padded_layer_def layer_new_defs)
  from ComputeOutputDim_truncates [OF h] obtain qh qw where
    "ComputeOutputDim padded_layer =
       Inr (padded_layer\<lparr>output_dim := \<lparr>dim_n = dim_n (input_dim padded_layer),
          dim_c = output_num (conv_param padded_layer), dim_h = qh + 1, dim_w = qw + 1\<rparr>\<rparr>)"
    by blast
  then show ?thesis
    by (simp add: ComputeOutputDim_def padded_layer_def layer_new_defs int_div_def
        signed_divide_int_def Let_def)
qed

text \<open>
  The claim as the specification states it fails where the dividend is negative: for a
  1x1 input under a 4x4 kernel with stride 2 the code computes the extent
  \<open>(1 - 4) / 2 + 1 = 0\<close>, the floor formula \<open>- 1\<close>.
\<close>

theorem ComputeOutputDim_floor_counterexample:
  "ComputeOutputDim small_input_layer =
     Inr (small_input_layer\<lparr>output_dim := \<lparr>dim_n = 1, dim_c = 1, dim_h = 0, dim_w = 0\<rparr>\<rparr>) \<and>
   floor_out_h small_input_layer = - 1 \<and> floor_out_w small_input_layer = - 1"
  by (simp add: ComputeOutputDim_def small_input_layer_def layer_new_defs int_div_def
      signed_divide_int_def floor_out_h_def floor_out_w_def Let_def)

subsection \<open>The type tag\<close>

text \<open>
  C10. For every layer and every type value \<open>t\<close>, \<open>setLayerType t\<close> leaves the layer,
  and with it the stored type tag, unchanged: \<open>getLayerType\<close> returns after the call
  what it returned before.
\<close>

theorem setLayerType_no_effect:
  "setLayerType t L = L \<and> getLayerType (setLayerType t L) = getLayerType L"
  by (simp add: setLayerType_def)

subsection \<open>Composed mode\<close>

text \<open>
  C4. When the input shape is all-zero, the base \<open>Setup\<close> returns normally and changes
  neither the layer nor the world: no buffer is created in the registry and no device
  memory is taken.
\<close>

theorem Layer_Setup_composed:
  assumes "dim_n (input_dim L) = 0" and "dim_c (input_dim L) = 0"
    and "dim_h (input_dim L) = 0" and "dim_w (input_dim L) = 0"
  shows "Layer_Setup E (L, W) = Inr (L, W)"
  using assms by (simp add: Layer_Setup_def)

theorem Layer_Setup_composed_witness:
  "dim_n (input_dim Layer_new) = 0 \<and> dim_c (input_dim Layer_new) = 0 \<and>
   dim_h (input_dim Layer_new) = 0 \<and> dim_w (input_dim Layer_new) = 0 \<and>
   Layer_Setup (Env_const 4 0 0) (Layer_new, World_new 0) = Inr (Layer_new, World_new 0)"
proof -
  have h: "dim_n (input_dim Layer_new) = 0" "dim_c (input_dim Layer_new) = 0"
    "dim_h (input_dim Layer_new) = 0" "dim_w (input_dim Layer_new) = 0"
    by (simp_all add: Layer_new_def)
  from Layer_Setup_composed [OF h] h show ?thesis
    by simp
qed

subsection \<open>The registry and the loop of the base \<open>Setup\<close>\<close>

lemma CreateData_Inr:
  "CreateData E sz W = Inr (h, W') \<longleftrightarrow>
     unat sz * sizeof_T E \<le> dev_free W \<and> h = num_data_chunks W \<and>
     W' = W\<lparr>gpu_data_pool := gpu_data_pool W @ [(num_data_chunks W, unat sz)],
            num_data_chunks := Suc (num_data_chunks W),
            dev_free := dev_free W - unat sz * sizeof_T E\<rparr>"
  by (auto simp: CreateData_def)

lemma at_Inr: "at v i = Inr x \<longleftrightarrow> i < length v \<and> x = v ! i"
  by (auto simp: at_def)

lemma GetData_Inr: "GetData c W = Inr p \<longleftrightarrow> c \<in> fst ` set (gpu_data_pool W) \<and> p = c"
proof (cases "map_of (gpu_data_pool W) c")
  case None
  then have "c \<notin> fst ` set (gpu_data_pool W)"
    by (simp add: map_of_eq_None_iff)
  with None show ?thesis
    by (simp add: GetData_def)
next
  case (Some a)
  then have "c \<in> fst ` set (gpu_data_pool W)"
    by (metis map_of_eq_None_iff option.distinct(1))
  with Some show ?thesis
    by (auto simp: GetData_def)
qed

lemma Setup_bottom_Inr:
  assumes "Setup_bottom E b i (L, W) = Inr (L', W')"
  shows "L' = L\<lparr>bottom_chunk_ids := bottom_chunk_ids L @ [num_data_chunks W],
                bottoms := bottoms L @ [(bottom_chunk_ids L @ [num_data_chunks W]) ! i],
                bottom_diff_chunk_ids := bottom_diff_chunk_ids L @ [Suc (num_data_chunks W)],
                bottom_diffs := bottom_diffs L @
                   [(bottom_diff_chunk_ids L @ [Suc (num_data_chunks W)]) ! i]\<rparr>"
    and "W' = W\<lparr>gpu_data_pool := gpu_data_pool W @
                   [(num_data_chunks W, unat (to_size_t b)),
                    (Suc (num_data_chunks W), unat (to_size_t b))],
                num_data_chunks := Suc (Suc (num_data_chunks W)),
                dev_free := dev_free W - 2 * (unat (to_size_t b) * sizeof_T E)\<rparr>"
    and "i \<le> length (bottom_chunk_ids L)" and "i \<le> length (bottom_diff_chunk_ids L)"
    and "2 * (unat (to_size_t b) * sizeof_T E) \<le> dev_free W"
  using assms
  by (auto simp: Setup_bottom_def and_then_Inr_iff CreateData_Inr at_Inr GetData_Inr Let_def)

lemma fresh_ids_0 [simp]: "fresh_ids h 0 = []"
  by (simp add: fresh_ids_def)

lemma fresh_ids_Suc: "fresh_ids h (Suc k) = h # fresh_ids (Suc (Suc h)) k"
  by (simp add: fresh_ids_def map_upt_Suc del: upt_Suc)

lemma fresh_pool_0 [simp]: "fresh_pool h 0 sz = []"
  by (simp add: fresh_pool_def)

lemma fresh_pool_Suc: "fresh_pool h (Suc n) sz = (h, sz) # fresh_pool (Suc h) n sz"
  by (simp add: fresh_pool_def map_upt_Suc del: upt_Suc)

lemma length_fresh_ids [simp]: "length (fresh_ids h k) = k"
  by (simp add: fresh_ids_def)

lemma length_fresh_pool [simp]: "length (fresh_pool h n sz) = n"
  by (simp add: fresh_pool_def)

lemma Setup_bottom_succeeds:
  assumes "2 * (unat (to_size_t b) * sizeof_T E) \<le> dev_free W"
    and "i \<le> length (bottom_chunk_ids L)" and "i \<le> length (bottom_diff_chunk_ids L)"
    and "set (bottom_chunk_ids L) \<subseteq> fst ` set (gpu_data_pool W)"
    and "set (bottom_diff_chunk_ids L) \<subseteq> fst ` set (gpu_data_pool W)"
  shows "\<exists>S'. Setup_bottom E b i (L, W) = Inr S'"
proof -
  have 1: "(bottom_chunk_ids L @ [num_data_chunks W]) ! i
             \<in> insert (num_data_chunks W) (fst ` set (gpu_data_pool W))"
  proof (cases "i < length (bottom_chunk_ids L)")
    case True
    then have "bottom_chunk_ids L ! i \<in> fst ` set (gpu_data_pool W)"
      using assms(4) nth_mem by blast
    with True show ?thesis by (simp add: nth_append)
  next
    case False
    with assms(2) show ?thesis by simp
  qed
  have 2: "(bottom_diff_chunk_ids L @ [Suc (num_data_chunks W)]) ! i
             \<in> insert (Suc (num_data_chunks W)) (fst ` set (gpu_data_pool W))"
  proof (cases "i < length (bottom_diff_chunk_ids L)")
    case True
    then have "bottom_diff_chunk_ids L ! i \<in> fst ` set (gpu_data_pool W)"
      using assms(5) nth_mem by blast
    with True show ?thesis by (simp add: nth_append)
  next
    case False
    with assms(3) show ?thesis by simp
  qed
  show ?thesis
    using assms(1,2,3) 1 2
    by (auto simp: Setup_bottom_def and_then_Inr_iff CreateData_Inr at_Inr GetData_Inr Let_def)
qed

lemma Setup_bottoms_Inr:
  assumes "Setup_bottoms E b i (L, W) = Inr (L', W')"
    and "k = nat (sint (num_inputs L) - int i)"
  shows "L' = L\<lparr>bottom_chunk_ids :=
                   bottom_chunk_ids L @ fresh_ids (num_data_chunks W) k,
                bottoms :=
                   bottoms L @ map ((!) (bottom_chunk_ids L @ fresh_ids (num_data_chunks W) k))
                                [i..<i + k],
                bottom_diff_chunk_ids :=
                   bottom_diff_chunk_ids L @ fresh_ids (Suc (num_data_chunks W)) k,
                bottom_diffs :=
                   bottom_diffs L @
                   map ((!) (bottom_diff_chunk_ids L @ fresh_ids (Suc (num_data_chunks W)) k))
                     [i..<i + k]\<rparr> \<and>
         W' = W\<lparr>gpu_data_pool := gpu_data_pool W @
                   fresh_pool (num_data_chunks W) (2 * k) (unat (to_size_t b)),
                num_data_chunks := num_data_chunks W + 2 * k,
                dev_free := dev_free W - 2 * k * (unat (to_size_t b) * sizeof_T E)\<rparr> \<and>
         2 * k * (unat (to_size_t b) * sizeof_T E) \<le> dev_free W"
  using assms
proof (induction k arbitrary: i L W)
  case 0
  then have "\<not> int i < sint (num_inputs L)" by simp
  with 0 show ?case
    by (simp add: Setup_bottoms.simps)
next
  case (Suc k)
  then have lt: "int i < sint (num_inputs L)" by simp
  with Suc.prems(1) obtain L1 W1
    where step: "Setup_bottom E b i (L, W) = Inr (L1, W1)"
      and rest: "Setup_bottoms E b (Suc i) (L1, W1) = Inr (L', W')"
    by (auto simp: Setup_bottoms.simps [of E b i] split: sum.splits)
  note s = Setup_bottom_Inr [OF step]
  have k: "k = nat (sint (num_inputs L1) - int (Suc i))"
    using Suc.prems(2) s(1) by simp
  note IH = Suc.IH [OF rest k]
  have upt: "[i..<Suc (i + k)] = i # [Suc i..<Suc (i + k)]"
    by (simp add: upt_conv_Cons)
  from IH have L': "L' = L1\<lparr>bottom_chunk_ids :=
                   bottom_chunk_ids L1 @ fresh_ids (num_data_chunks W1) k,
                bottoms :=
                   bottoms L1 @ map ((!) (bottom_chunk_ids L1 @ fresh_ids (num_data_chunks W1) k))
                                [Suc i..<Suc i + k],
                bottom_diff_chunk_ids :=
                   bottom_diff_chunk_ids L1 @ fresh_ids (Suc (num_data_chunks W1)) k,
                bottom_diffs :=
                   bottom_diffs L1 @
                   map ((!) (bottom_diff_chunk_ids L1 @ fresh_ids (Suc (num_data_chunks W1)) k))
                     [Suc i..<Suc i + k]\<rparr>"
    by blast
  from IH have W': "W' = W1\<lparr>gpu_data_pool := gpu_data_pool W1 @
                   fresh_pool (num_data_chunks W1) (2 * k) (unat (to_size_t b)),
                num_data_chunks := num_data_chunks W1 + 2 * k,
                dev_free := dev_free W1 - 2 * k * (unat (to_size_t b) * sizeof_T E)\<rparr>"
    by blast
  from IH have mem: "2 * k * (unat (to_size_t b) * sizeof_T E) \<le> dev_free W1"
    by blast
  have "L' = L\<lparr>bottom_chunk_ids :=
                   bottom_chunk_ids L @ fresh_ids (num_data_chunks W) (Suc k),
                bottoms :=
                   bottoms L @ map ((!) (bottom_chunk_ids L @ fresh_ids (num_data_chunks W) (Suc k)))
                                [i..<i + Suc k],
                bottom_diff_chunk_ids :=
                   bottom_diff_chunk_ids L @ fresh_ids (Suc (num_data_chunks W)) (Suc k),
                bottom_diffs :=
                   bottom_diffs L @
                   map ((!) (bottom_diff_chunk_ids L @ fresh_ids (Suc (num_data_chunks W)) (Suc k)))
                     [i..<i + Suc k]\<rparr>"
    unfolding L' using s(3,4)
    by (simp add: s(1,2) fresh_ids_Suc upt nth_append del: upt_Suc)
  moreover have "W' = W\<lparr>gpu_data_pool := gpu_data_pool W @
                   fresh_pool (num_data_chunks W) (2 * Suc k) (unat (to_size_t b)),
                num_data_chunks := num_data_chunks W + 2 * Suc k,
                dev_free := dev_free W - 2 * Suc k * (unat (to_size_t b) * sizeof_T E)\<rparr>"
    unfolding W'
    by (simp add: s(2) fresh_pool_Suc algebra_simps)
  moreover have "2 * Suc k * (unat (to_size_t b) * sizeof_T E) \<le> dev_free W"
    using mem s(5) by (simp add: s(2) algebra_simps)
  ultimately show ?case by blast
qed

lemma Setup_bottoms_succeeds:
  assumes "k = nat (sint (num_inputs L) - int i)"
    and "2 * k * (unat (to_size_t b) * sizeof_T E) \<le> dev_free W"
    and "i \<le> length (bottom_chunk_ids L)" and "i \<le> length (bottom_diff_chunk_ids L)"
    and "set (bottom_chunk_ids L) \<subseteq> fst ` set (gpu_data_pool W)"
    and "set (bottom_diff_chunk_ids L) \<subseteq> fst ` set (gpu_data_pool W)"
  shows "\<exists>S'. Setup_bottoms E b i (L, W) = Inr S'"
  using assms
proof (induction k arbitrary: i L W)
  case 0
  then have "\<not> int i < sint (num_inputs L)" by simp
  then show ?case
    by (simp add: Setup_bottoms.simps)
next
  case (Suc k)
  then have lt: "int i < sint (num_inputs L)" by simp
  have "2 * (unat (to_size_t b) * sizeof_T E) \<le> dev_free W"
    using Suc.prems(2) by (simp add: algebra_simps)
  from Setup_bottom_succeeds [OF this Suc.prems(3-6)]
  obtain L1 W1 where step: "Setup_bottom E b i (L, W) = Inr (L1, W1)"
    by fastforce
  note s = Setup_bottom_Inr [OF step]
  have "\<exists>S'. Setup_bottoms E b (Suc i) (L1, W1) = Inr S'"
  proof (rule Suc.IH)
    show "k = nat (sint (num_inputs L1) - int (Suc i))"
      using Suc.prems(1) by (simp add: s(1))
    show "2 * k * (unat (to_size_t b) * sizeof_T E) \<le> dev_free W1"
      using Suc.prems(2) by (simp add: s(2) algebra_simps)
    show "Suc i \<le> length (bottom_chunk_ids L1)"
      using s(3) by (simp add: s(1))
    show "Suc i \<le> length (bottom_diff_chunk_ids L1)"
      using s(4) by (simp add: s(1))
    show "set (bottom_chunk_ids L1) \<subseteq> fst ` set (gpu_data_pool W1)"
      using Suc.prems(5) by (auto simp: s(1,2))
    show "set (bottom_diff_chunk_ids L1) \<subseteq> fst ` set (gpu_data_pool W1)"
      using Suc.prems(6) by (auto simp: s(1,2))
  qed
  with lt step show ?case
    by (simp add: Setup_bottoms.simps [of E b i])
qed

lemma Layer_Setup_result:
  fixes L :: "'a Layer_scheme" and W :: World and E :: Env
  defines "k \<equiv> nat (sint (num_inputs L))"
    and "h \<equiv> num_data_chunks W"
    and "sz \<equiv> unat (to_size_t (dim_n (input_dim L) * dim_c (input_dim L) *
                                 dim_h (input_dim L) * dim_w (input_dim L)))"
  assumes "standalone (input_dim L)"
    and "2 * k * (sz * sizeof_T E) \<le> dev_free W"
    and "set (bottom_chunk_ids L) \<subseteq> fst ` set (gpu_data_pool W)"
    and "set (bottom_diff_chunk_ids L) \<subseteq> fst ` set (gpu_data_pool W)"
  shows "Layer_Setup E (L, W) =
     Inr (L\<lparr>bottom_desc := Some (dim_n (input_dim L), dim_c (input_dim L),
                                  dim_h (input_dim L), dim_w (input_dim L)),
            bottom_chunk_ids := bottom_chunk_ids L @ fresh_ids h k,
            bottoms := bottoms L @ map ((!) (bottom_chunk_ids L @ fresh_ids h k)) [0..<k],
            bottom_diff_chunk_ids := bottom_diff_chunk_ids L @ fresh_ids (Suc h) k,
            bottom_diffs := bottom_diffs L @
               map ((!) (bottom_diff_chunk_ids L @ fresh_ids (Suc h) k)) [0..<k]\<rparr>,
          W\<lparr>gpu_data_pool := gpu_data_pool W @ fresh_pool h (2 * k) sz,
            num_data_chunks := h + 2 * k,
            dev_free := dev_free W - 2 * k * (sz * sizeof_T E)\<rparr>)"
proof -
  let ?L1 = "L\<lparr>bottom_desc := DataTensor_Set (dim_n (input_dim L)) (dim_c (input_dim L))
                                    (dim_h (input_dim L)) (dim_w (input_dim L))\<rparr>"
  let ?b = "dim_n (input_dim L) * dim_c (input_dim L) * dim_h (input_dim L) * dim_w (input_dim L)"
  have eq: "Layer_Setup E (L, W) = Setup_bottoms E ?b 0 (?L1, W)"
    using assms(4) by (simp add: Layer_Setup_def standalone_def Let_def)
  have "\<exists>S'. Setup_bottoms E ?b 0 (?L1, W) = Inr S'"
    using assms(5-7) by (intro Setup_bottoms_succeeds [where k = k]) (simp_all add: k_def sz_def)
  then obtain L' W' where r: "Setup_bottoms E ?b 0 (?L1, W) = Inr (L', W')"
    by fastforce
  from Setup_bottoms_Inr [OF r, of k] show ?thesis
    unfolding eq r by (simp add: k_def h_def sz_def DataTensor_Set_def)
qed

lemma map_nth_fresh_ids: "map ((!) (fresh_ids h k)) [0..<k] = fresh_ids h k"
  using map_nth [of "fresh_ids h k"] by simp

lemma fresh_ids_add: "fresh_ids h (k + m) = fresh_ids h k @ fresh_ids (h + 2 * k) m"
  by (induction k arbitrary: h) (simp_all add: fresh_ids_Suc)

lemma fresh_pool_add: "fresh_pool h (n + m) sz = fresh_pool h n sz @ fresh_pool (h + n) m sz"
  by (induction n arbitrary: h) (simp_all add: fresh_pool_Suc)

lemma set_fresh_ids: "set (fresh_ids h k) = (\<lambda>j. h + 2 * j) ` {..<k}"
  by (auto simp: fresh_ids_def)

lemma set_fresh_pool: "fst ` set (fresh_pool h n sz) = {h..<h + n}"
proof -
  have "fst ` set (fresh_pool h n sz) = (+) h ` {0..<n}"
    by (simp add: fresh_pool_def image_image)
  also have "\<dots> = {h..<h + n}"
    by (simp add: add.commute)
  finally show ?thesis .
qed

lemma distinct_fresh_ids: "distinct (fresh_ids h k)"
  by (simp add: fresh_ids_def distinct_map inj_on_def)

lemma to_size_t_nonneg:
  assumes "0 \<le> sint x"
  shows "int (unat (to_size_t x)) = sint x"
proof -
  have "sint x < 2 ^ 31"
    using sint_lt [of x] by simp
  then have "sint x < 2 ^ 64"
    by simp
  have "uint (to_size_t x) = uint (word_of_int (sint x) :: size_t)"
    unfolding to_size_t_def by (subst scast_eq) (rule refl)
  also have "\<dots> = take_bit 64 (sint x)"
    by (simp add: uint_word_of_int_eq del: of_int_sint)
  also have "\<dots> = sint x"
    using assms \<open>sint x < 2 ^ 64\<close> by (simp add: take_bit_int_eq_self)
  finally show ?thesis
    by simp
qed

lemma sint_prod4:
  fixes a b c d :: cint
  assumes "- (2 ^ 31) \<le> sint a * sint b * sint c * sint d"
    and "sint a * sint b * sint c * sint d < 2 ^ 31"
  shows "sint (a * b * c * d) = sint a * sint b * sint c * sint d"
proof -
  have "a * b * c * d = word_of_int (sint a * sint b * sint c * sint d)"
    by simp
  then show ?thesis
    using assms by (simp only: sint_sbintrunc' signed_take_bit_int_eq_self_iff) simp
qed

lemma map_nth_append_fresh_ids:
  "map ((!) (fresh_ids h k @ ys)) [0..<k] = fresh_ids h k"
proof -
  have "map ((!) (fresh_ids h k @ ys)) [0..<k] = map ((!) (fresh_ids h k)) [0..<k]"
    by (rule map_cong) (simp_all add: nth_append)
  then show ?thesis
    by (simp add: map_nth_fresh_ids)
qed

lemma map_nth_fresh_ids_le:
  assumes "k \<le> m"
  shows "map ((!) (fresh_ids h m)) [0..<k] = fresh_ids h k"
proof -
  have "map ((!) (fresh_ids h m)) [0..<k] = map (\<lambda>j. h + 2 * j) [0..<k]"
    using assms by (intro map_cong) (simp_all add: fresh_ids_def)
  then show ?thesis
    by (simp add: fresh_ids_def)
qed

lemma fresh_ids_1: "fresh_ids h (Suc 0) = [h]"
  by (simp add: fresh_ids_def)

lemma fresh_pool_2: "fresh_pool h 2 sz = [(h, sz), (Suc h, sz)]"
  by (simp add: numeral_2_eq_2 fresh_pool_Suc)

subsection \<open>Standalone mode\<close>

text \<open>
  C5 (as amended). For a freshly constructed layer whose four input extents are positive,
  and a device with room for the buffers, the base \<open>Setup\<close> returns normally; it sets
  the input descriptor and computes the flat size as the product
  \<open>count * channels * height * width\<close> in 32-bit \<open>int\<close> arithmetic, which is the
  mathematical product whenever that is below \<open>2^31\<close>; for each of the \<open>num_inputs\<close>
  inputs it creates exactly one input buffer and one gradient buffer of that size in the
  registry, in this order, and records their handles.
\<close>

theorem Layer_Setup_standalone:
  fixes L :: "'a Layer_scheme" and W :: World and E :: Env
  defines "k \<equiv> nat (sint (num_inputs L))"
    and "h \<equiv> num_data_chunks W"
    and "sz \<equiv> unat (to_size_t (dim_n (input_dim L) * dim_c (input_dim L) *
                                 dim_h (input_dim L) * dim_w (input_dim L)))"
  assumes "0 < sint (dim_n (input_dim L))" and "0 < sint (dim_c (input_dim L))"
    and "0 < sint (dim_h (input_dim L))" and "0 < sint (dim_w (input_dim L))"
    and "bottom_chunk_ids L = []" and "bottom_diff_chunk_ids L = []"
    and "2 * k * (sz * sizeof_T E) \<le> dev_free W"
  shows "Layer_Setup E (L, W) =
     Inr (L\<lparr>bottom_desc := Some (dim_n (input_dim L), dim_c (input_dim L),
                                  dim_h (input_dim L), dim_w (input_dim L)),
            bottom_chunk_ids := fresh_ids h k,
            bottoms := bottoms L @ fresh_ids h k,
            bottom_diff_chunk_ids := fresh_ids (Suc h) k,
            bottom_diffs := bottom_diffs L @ fresh_ids (Suc h) k\<rparr>,
          W\<lparr>gpu_data_pool := gpu_data_pool W @ fresh_pool h (2 * k) sz,
            num_data_chunks := h + 2 * k,
            dev_free := dev_free W - 2 * k * (sz * sizeof_T E)\<rparr>) \<and>
     (sint (dim_n (input_dim L)) * sint (dim_c (input_dim L)) *
      sint (dim_h (input_dim L)) * sint (dim_w (input_dim L)) < 2 ^ 31 \<longrightarrow>
      int sz = sint (dim_n (input_dim L)) * sint (dim_c (input_dim L)) *
               sint (dim_h (input_dim L)) * sint (dim_w (input_dim L)))"
proof
  have st: "standalone (input_dim L)"
    using assms(4-7) by (auto simp: standalone_def)
  from Layer_Setup_result [OF st, of E W] assms(8-10)
  show "Layer_Setup E (L, W) =
     Inr (L\<lparr>bottom_desc := Some (dim_n (input_dim L), dim_c (input_dim L),
                                  dim_h (input_dim L), dim_w (input_dim L)),
            bottom_chunk_ids := fresh_ids h k,
            bottoms := bottoms L @ fresh_ids h k,
            bottom_diff_chunk_ids := fresh_ids (Suc h) k,
            bottom_diffs := bottom_diffs L @ fresh_ids (Suc h) k\<rparr>,
          W\<lparr>gpu_data_pool := gpu_data_pool W @ fresh_pool h (2 * k) sz,
            num_data_chunks := h + 2 * k,
            dev_free := dev_free W - 2 * k * (sz * sizeof_T E)\<rparr>)"
    by (simp add: k_def h_def sz_def map_nth_fresh_ids)
next
  let ?P = "sint (dim_n (input_dim L)) * sint (dim_c (input_dim L)) *
      sint (dim_h (input_dim L)) * sint (dim_w (input_dim L))"
  have pos: "0 < ?P"
    using assms(4-7) by simp
  show "?P < 2 ^ 31 \<longrightarrow> int sz = ?P"
  proof
    assume lt: "?P < 2 ^ 31"
    with pos have "sint (dim_n (input_dim L) * dim_c (input_dim L) *
                         dim_h (input_dim L) * dim_w (input_dim L)) = ?P"
      by (intro sint_prod4) simp_all
    with pos show "int sz = ?P"
      unfolding sz_def by (subst to_size_t_nonneg) simp_all
  qed
qed

theorem Layer_Setup_standalone_witness:
  "Layer_Setup (Env_const 4 0 0) (standalone_layer, World_new 4096) =
     Inr (standalone_layer
            \<lparr>bottom_desc := Some (2, 3, 8, 8), bottom_chunk_ids := [0], bottoms := [0],
             bottom_diff_chunk_ids := [1], bottom_diffs := [1]\<rparr>,
          \<lparr>gpu_data_pool = [(0, 384), (1, 384)], num_data_chunks = 2, dev_free = 1024,
           dev_live = [], dev_next = 0, trace = []\<rparr>)"
  using Layer_Setup_standalone [of standalone_layer "Env_const 4 0 0" "World_new 4096"]
  by (simp add: standalone_layer_def Layer_new_def Env_const_def World_new_def
      fresh_ids_1 fresh_pool_2 to_size_t_def)

text \<open>
  The claim as the specification states it fails where the product of the extents does
  not fit an \<open>int\<close>: for the fully positive input (65536, 65536, 1, 1) the product is
  \<open>2^32\<close>, the \<open>int\<close> that \<open>Setup\<close> computes is \<open>0\<close>, and the two buffers
  it creates have no elements.
\<close>

theorem Layer_Setup_size_counterexample:
  "0 < sint (dim_n (input_dim wide_layer)) \<and> 0 < sint (dim_c (input_dim wide_layer)) \<and>
   0 < sint (dim_h (input_dim wide_layer)) \<and> 0 < sint (dim_w (input_dim wide_layer)) \<and>
   sint (dim_n (input_dim wide_layer)) * sint (dim_c (input_dim wide_layer)) *
   sint (dim_h (input_dim wide_layer)) * sint (dim_w (input_dim wide_layer)) = 4294967296 \<and>
   Layer_Setup (Env_const 4 0 0) (wide_layer, World_new 0) =
     Inr (wide_layer
            \<lparr>bottom_desc := Some (65536, 65536, 1, 1), bottom_chunk_ids := [0], bottoms := [0],
             bottom_diff_chunk_ids := [1], bottom_diffs := [1]\<rparr>,
          \<lparr>gpu_data_pool = [(0, 0), (1, 0)], num_data_chunks = 2, dev_free = 0,
           dev_live = [], dev_next = 0, trace = []\<rparr>)"
  by (simp add: wide_layer_def Layer_new_def Env_const_def World_new_def Layer_Setup_def
      Setup_bottoms.simps Setup_bottom_def CreateData_def GetData_def at_def to_size_t_def
      DataTensor_Set_def Let_def)

subsection \<open>A second \<open>Setup\<close>\<close>

text \<open>
  C8. \<open>Setup\<close> is not idempotent and nothing guards it: on a freshly constructed
  layer in standalone mode, with room on the device, a second call runs the allocation
  path again. Afterwards the layer records two input handles and two gradient handles for
  each logical input, all distinct, and the registry holds four buffers for each input
  instead of two. (The pointers pushed by the second call are read at the indices of the
  first call, so \<open>bottoms\<close> and \<open>bottom_diffs\<close> hold the first call's buffers twice.)
\<close>

theorem Layer_Setup_twice:
  fixes L :: "'a Layer_scheme" and W :: World and E :: Env
  defines "k \<equiv> nat (sint (num_inputs L))"
    and "h \<equiv> num_data_chunks W"
    and "sz \<equiv> unat (to_size_t (dim_n (input_dim L) * dim_c (input_dim L) *
                                 dim_h (input_dim L) * dim_w (input_dim L)))"
  assumes "standalone (input_dim L)"
    and "bottom_chunk_ids L = []" and "bottoms L = []"
    and "bottom_diff_chunk_ids L = []" and "bottom_diffs L = []"
    and "4 * k * (sz * sizeof_T E) \<le> dev_free W"
  shows "\<exists>L1 W1 L2 W2.
     Layer_Setup E (L, W) = Inr (L1, W1) \<and> Layer_Setup E (L1, W1) = Inr (L2, W2) \<and>
     bottom_chunk_ids L1 = fresh_ids h k \<and> bottom_diff_chunk_ids L1 = fresh_ids (Suc h) k \<and>
     gpu_data_pool W1 = gpu_data_pool W @ fresh_pool h (2 * k) sz \<and>
     bottom_chunk_ids L2 = fresh_ids h (2 * k) \<and>
     bottom_diff_chunk_ids L2 = fresh_ids (Suc h) (2 * k) \<and>
     distinct (bottom_chunk_ids L2 @ bottom_diff_chunk_ids L2) \<and>
     bottoms L2 = fresh_ids h k @ fresh_ids h k \<and>
     bottom_diffs L2 = fresh_ids (Suc h) k @ fresh_ids (Suc h) k \<and>
     gpu_data_pool W2 = gpu_data_pool W @ fresh_pool h (4 * k) sz \<and>
     num_data_chunks W2 = h + 4 * k \<and>
     dev_free W2 = dev_free W - 4 * k * (sz * sizeof_T E)"
proof -
  let ?L1 = "L\<lparr>bottom_desc := Some (dim_n (input_dim L), dim_c (input_dim L),
                                  dim_h (input_dim L), dim_w (input_dim L)),
            bottom_chunk_ids := fresh_ids h k,
            bottoms := fresh_ids h k,
            bottom_diff_chunk_ids := fresh_ids (Suc h) k,
            bottom_diffs := fresh_ids (Suc h) k\<rparr>"
  let ?W1 = "W\<lparr>gpu_data_pool := gpu_data_pool W @ fresh_pool h (2 * k) sz,
            num_data_chunks := h + 2 * k,
            dev_free := dev_free W - 2 * k * (sz * sizeof_T E)\<rparr>"
  have first: "Layer_Setup E (L, W) = Inr (?L1, ?W1)"
    using Layer_Setup_result [OF assms(4), of E W] assms(5-9)
    by (simp add: k_def h_def sz_def map_nth_fresh_ids)
  have st1: "standalone (input_dim ?L1)"
    using assms(4) by simp
  have sub1: "set (bottom_chunk_ids ?L1) \<subseteq> fst ` set (gpu_data_pool ?W1)"
    by (auto simp: set_fresh_ids image_Un set_fresh_pool)
  have sub2: "set (bottom_diff_chunk_ids ?L1) \<subseteq> fst ` set (gpu_data_pool ?W1)"
    by (auto simp: set_fresh_ids image_Un set_fresh_pool)
  have mem1: "2 * k * (sz * sizeof_T E) \<le> dev_free ?W1"
    using assms(9) by simp
  let ?L2 = "?L1\<lparr>bottom_chunk_ids := fresh_ids h (2 * k),
            bottoms := fresh_ids h k @ fresh_ids h k,
            bottom_diff_chunk_ids := fresh_ids (Suc h) (2 * k),
            bottom_diffs := fresh_ids (Suc h) k @ fresh_ids (Suc h) k\<rparr>"
  let ?W2 = "W\<lparr>gpu_data_pool := gpu_data_pool W @ fresh_pool h (4 * k) sz,
            num_data_chunks := h + 4 * k,
            dev_free := dev_free W - 4 * k * (sz * sizeof_T E)\<rparr>"
  have ids: "fresh_ids h k @ fresh_ids (h + 2 * k) k = fresh_ids h (2 * k)"
    "fresh_ids (Suc h) k @ fresh_ids (Suc (h + 2 * k)) k = fresh_ids (Suc h) (2 * k)"
    using fresh_ids_add [of h k k] fresh_ids_add [of "Suc h" k k] by (simp_all add: mult_2)
  have pool: "fresh_pool h (2 * k) sz @ fresh_pool (h + 2 * k) (2 * k) sz = fresh_pool h (4 * k) sz"
    using fresh_pool_add [of h "2 * k" "2 * k" sz] by simp
  have kk: "nat (sint (num_inputs ?L1)) = k"
    by (simp add: k_def)
  have ss: "unat (to_size_t (dim_n (input_dim ?L1) * dim_c (input_dim ?L1) *
                              dim_h (input_dim ?L1) * dim_w (input_dim ?L1))) = sz"
    by (simp add: sz_def)
  have second: "Layer_Setup E (?L1, ?W1) = Inr (?L2, ?W2)"
    using Layer_Setup_result [OF st1, of E ?W1] mem1 sub1 sub2
    unfolding kk ss
    by (simp add: map_nth_fresh_ids_le ids pool)
  have dist: "distinct (fresh_ids h (2 * k) @ fresh_ids (Suc h) (2 * k))"
    by (auto simp: distinct_fresh_ids set_fresh_ids) presburger
  show ?thesis
    apply (rule exI [of _ ?L1], rule exI [of _ ?W1], rule exI [of _ ?L2], rule exI [of _ ?W2])
    apply (intro conjI)
    subgoal by (rule first)
    subgoal by (rule second)
    subgoal by simp
    subgoal by simp
    subgoal by simp
    subgoal by simp
    subgoal by simp
    subgoal using dist by simp
    subgoal by simp
    subgoal by simp
    subgoal by simp
    subgoal by simp
    subgoal by simp
    done
qed

theorem Layer_Setup_twice_witness:
  "standalone (input_dim standalone_layer) \<and>
   (\<exists>L1 W1 L2 W2.
     Layer_Setup (Env_const 4 0 0) (standalone_layer, World_new 8192) = Inr (L1, W1) \<and>
     Layer_Setup (Env_const 4 0 0) (L1, W1) = Inr (L2, W2) \<and>
     bottom_chunk_ids L1 = [0] \<and> bottom_diff_chunk_ids L1 = [1] \<and>
     gpu_data_pool W1 = [(0, 384), (1, 384)] \<and>
     bottom_chunk_ids L2 = [0, 2] \<and>
     bottom_diff_chunk_ids L2 = [1, 3] \<and>
     bottoms L2 = [0, 0] \<and>
     bottom_diffs L2 = [1, 1] \<and>
     gpu_data_pool W2 = [(0, 384), (1, 384), (2, 384), (3, 384)] \<and>
     num_data_chunks W2 = 4 \<and>
     dev_free W2 = 2048)"
proof -
  have h: "standalone (input_dim standalone_layer)"
    "bottom_chunk_ids standalone_layer = []" "bottoms standalone_layer = []"
    "bottom_diff_chunk_ids standalone_layer = []" "bottom_diffs standalone_layer = []"
    by (simp_all add: standalone_layer_def Layer_new_def standalone_def)
  have m: "4 * nat (sint (num_inputs standalone_layer)) *
      (unat (to_size_t (dim_n (input_dim standalone_layer) * dim_c (input_dim standalone_layer) *
                        dim_h (input_dim standalone_layer) * dim_w (input_dim standalone_layer))) *
       sizeof_T (Env_const 4 0 0)) \<le> dev_free (World_new 8192)"
    by (simp add: standalone_layer_def Layer_new_def Env_const_def World_new_def to_size_t_def)
  have e: "nat (sint (num_inputs standalone_layer)) = 1"
    "unat (to_size_t (dim_n (input_dim standalone_layer) * dim_c (input_dim standalone_layer) *
                        dim_h (input_dim standalone_layer) * dim_w (input_dim standalone_layer))) = 384"
    "sizeof_T (Env_const 4 0 0) = 4" "num_data_chunks (World_new 8192) = 0"
    "gpu_data_pool (World_new 8192) = []" "dev_free (World_new 8192) = 8192"
    by (simp_all add: standalone_layer_def Layer_new_def Env_const_def World_new_def to_size_t_def)
  have f: "fresh_ids 0 1 = [0]" "fresh_ids (Suc 0) 1 = [1]" "fresh_ids 0 2 = [0, 2]"
    "fresh_ids (Suc 0) 2 = [1, 3]"
    "fresh_pool 0 2 384 = [(0, 384), (1, 384)]"
    "fresh_pool 0 4 384 = [(0, 384), (1, 384), (2, 384), (3, 384)]"
    by (simp_all add: fresh_ids_def fresh_pool_def upt_conv_Cons)
  from Layer_Setup_twice [OF h m] obtain L1 W1 L2 W2 where
    "Layer_Setup (Env_const 4 0 0) (standalone_layer, World_new 8192) = Inr (L1, W1)"
    "Layer_Setup (Env_const 4 0 0) (L1, W1) = Inr (L2, W2)"
    "bottom_chunk_ids L1 = fresh_ids 0 1" "bottom_diff_chunk_ids L1 = fresh_ids (Suc 0) 1"
    "gpu_data_pool W1 = fresh_pool 0 (2 * 1) 384"
    "bottom_chunk_ids L2 = fresh_ids 0 (2 * 1)"
    "bottom_diff_chunk_ids L2 = fresh_ids (Suc 0) (2 * 1)"
    "bottoms L2 = fresh_ids 0 1 @ fresh_ids 0 1"
    "bottom_diffs L2 = fresh_ids (Suc 0) 1 @ fresh_ids (Suc 0) 1"
    "gpu_data_pool W2 = fresh_pool 0 (4 * 1) 384"
    "num_data_chunks W2 = 0 + 4 * 1"
    "dev_free W2 = 8192 - 4 * 1 * (384 * 4)"
    unfolding e by (elim exE conjE) simp
  with h(1) show ?thesis
    by (simp add: f fresh_ids_1)
qed

subsection \<open>The convolution \<open>Setup\<close>\<close>

lemma Setup_top_Inr:
  assumes "Setup_top E b i (L, W) = Inr (L', W')"
  shows "L' = L\<lparr>top_chunk_ids := top_chunk_ids L @ [num_data_chunks W],
                tops := tops L @ [(top_chunk_ids L @ [num_data_chunks W]) ! i],
                top_diff_chunk_ids := top_diff_chunk_ids L @ [Suc (num_data_chunks W)],
                top_diffs := top_diffs L @
                   [(top_diff_chunk_ids L @ [Suc (num_data_chunks W)]) ! i]\<rparr>"
    and "W' = W\<lparr>gpu_data_pool := gpu_data_pool W @
                   [(num_data_chunks W, unat (to_size_t b)),
                    (Suc (num_data_chunks W), unat (to_size_t b))],
                num_data_chunks := Suc (Suc (num_data_chunks W)),
                dev_free := dev_free W - 2 * (unat (to_size_t b) * sizeof_T E)\<rparr>"
    and "i \<le> length (top_chunk_ids L)" and "i \<le> length (top_diff_chunk_ids L)"
    and "2 * (unat (to_size_t b) * sizeof_T E) \<le> dev_free W"
  using assms
  by (auto simp: Setup_top_def and_then_Inr_iff CreateData_Inr at_Inr GetData_Inr Let_def)

lemma Setup_tops_Inr:
  assumes "Setup_tops E b i (L, W) = Inr (L', W')"
    and "k = nat (sint (num_outputs L) - int i)"
  shows "L' = L\<lparr>top_chunk_ids :=
                   top_chunk_ids L @ fresh_ids (num_data_chunks W) k,
                tops :=
                   tops L @ map ((!) (top_chunk_ids L @ fresh_ids (num_data_chunks W) k))
                                [i..<i + k],
                top_diff_chunk_ids :=
                   top_diff_chunk_ids L @ fresh_ids (Suc (num_data_chunks W)) k,
                top_diffs :=
                   top_diffs L @
                   map ((!) (top_diff_chunk_ids L @ fresh_ids (Suc (num_data_chunks W)) k))
                     [i..<i + k]\<rparr> \<and>
         W' = W\<lparr>gpu_data_pool := gpu_data_pool W @
                   fresh_pool (num_data_chunks W) (2 * k) (unat (to_size_t b)),
                num_data_chunks := num_data_chunks W + 2 * k,
                dev_free := dev_free W - 2 * k * (unat (to_size_t b) * sizeof_T E)\<rparr> \<and>
         2 * k * (unat (to_size_t b) * sizeof_T E) \<le> dev_free W"
  using assms
proof (induction k arbitrary: i L W)
  case 0
  then have "\<not> int i < sint (num_outputs L)" by simp
  with 0 show ?case
    by (simp add: Setup_tops.simps)
next
  case (Suc k)
  then have lt: "int i < sint (num_outputs L)" by simp
  with Suc.prems(1) obtain L1 W1
    where step: "Setup_top E b i (L, W) = Inr (L1, W1)"
      and rest: "Setup_tops E b (Suc i) (L1, W1) = Inr (L', W')"
    by (auto simp: Setup_tops.simps [of E b i] split: sum.splits)
  note s = Setup_top_Inr [OF step]
  have k: "k = nat (sint (num_outputs L1) - int (Suc i))"
    using Suc.prems(2) s(1) by simp
  note IH = Suc.IH [OF rest k]
  have upt: "[i..<Suc (i + k)] = i # [Suc i..<Suc (i + k)]"
    by (simp add: upt_conv_Cons)
  from IH have L': "L' = L1\<lparr>top_chunk_ids :=
                   top_chunk_ids L1 @ fresh_ids (num_data_chunks W1) k,
                tops :=
                   tops L1 @ map ((!) (top_chunk_ids L1 @ fresh_ids (num_data_chunks W1) k))
                                [Suc i..<Suc i + k],
                top_diff_chunk_ids :=
                   top_diff_chunk_ids L1 @ fresh_ids (Suc (num_data_chunks W1)) k,
                top_diffs :=
                   top_diffs L1 @
                   map ((!) (top_diff_chunk_ids L1 @ fresh_ids (Suc (num_data_chunks W1)) k))
                     [Suc i..<Suc i + k]\<rparr>"
    by blast
  from IH have W': "W' = W1\<lparr>gpu_data_pool := gpu_data_pool W1 @
                   fresh_pool (num_data_chunks W1) (2 * k) (unat (to_size_t b)),
                num_data_chunks := num_data_chunks W1 + 2 * k,
                dev_free := dev_free W1 - 2 * k * (unat (to_size_t b) * sizeof_T E)\<rparr>"
    by blast
  from IH have mem: "2 * k * (unat (to_size_t b) * sizeof_T E) \<le> dev_free W1"
    by blast
  have "L' = L\<lparr>top_chunk_ids :=
                   top_chunk_ids L @ fresh_ids (num_data_chunks W) (Suc k),
                tops :=
                   tops L @ map ((!) (top_chunk_ids L @ fresh_ids (num_data_chunks W) (Suc k)))
                                [i..<i + Suc k],
                top_diff_chunk_ids :=
                   top_diff_chunk_ids L @ fresh_ids (Suc (num_data_chunks W)) (Suc k),
                top_diffs :=
                   top_diffs L @
                   map ((!) (top_diff_chunk_ids L @ fresh_ids (Suc (num_data_chunks W)) (Suc k)))
                     [i..<i + Suc k]\<rparr>"
    unfolding L' using s(3,4)
    by (simp add: s(1,2) fresh_ids_Suc upt nth_append del: upt_Suc)
  moreover have "W' = W\<lparr>gpu_data_pool := gpu_data_pool W @
                   fresh_pool (num_data_chunks W) (2 * Suc k) (unat (to_size_t b)),
                num_data_chunks := num_data_chunks W + 2 * Suc k,
                dev_free := dev_free W - 2 * Suc k * (unat (to_size_t b) * sizeof_T E)\<rparr>"
    unfolding W'
    by (simp add: s(2) fresh_pool_Suc algebra_simps)
  moreover have "2 * Suc k * (unat (to_size_t b) * sizeof_T E) \<le> dev_free W"
    using mem s(5) by (simp add: s(2) algebra_simps)
  ultimately show ?case by blast
qed

lemma ComputeOutputDim_Inr:
  assumes "ComputeOutputDim L = Inr L'"
  shows "\<exists>qh qw.
           int_div (dim_h (input_dim L) + 2 * pad_h (conv_param L) - kernel_size_h (conv_param L))
                   (stride_u (conv_param L)) = Inr qh \<and>
           int_div (dim_w (input_dim L) + 2 * pad_w (conv_param L) - kernel_size_w (conv_param L))
                   (stride_v (conv_param L)) = Inr qw \<and>
           L' = L\<lparr>output_dim := \<lparr>dim_n = dim_n (input_dim L),
                                  dim_c = output_num (conv_param L),
                                  dim_h = qh + 1, dim_w = qw + 1\<rparr>\<rparr>"
  using assms by (auto simp: ComputeOutputDim_def and_then_Inr_iff Let_def)

lemma Layer_Setup_Inr:
  fixes L :: "'a Layer_scheme"
  assumes "Layer_Setup E (L, W) = Inr (L', W')"
  shows "if standalone (input_dim L) then
     L' = L\<lparr>bottom_desc := Some (dim_n (input_dim L), dim_c (input_dim L),
                                   dim_h (input_dim L), dim_w (input_dim L)),
             bottom_chunk_ids := bottom_chunk_ids L @
                fresh_ids (num_data_chunks W) (nat (sint (num_inputs L))),
             bottoms := bottoms L @
                map ((!) (bottom_chunk_ids L @
                          fresh_ids (num_data_chunks W) (nat (sint (num_inputs L)))))
                  [0..<nat (sint (num_inputs L))],
             bottom_diff_chunk_ids := bottom_diff_chunk_ids L @
                fresh_ids (Suc (num_data_chunks W)) (nat (sint (num_inputs L))),
             bottom_diffs := bottom_diffs L @
                map ((!) (bottom_diff_chunk_ids L @
                          fresh_ids (Suc (num_data_chunks W)) (nat (sint (num_inputs L)))))
                  [0..<nat (sint (num_inputs L))]\<rparr> \<and>
     W' = W\<lparr>gpu_data_pool := gpu_data_pool W @
                fresh_pool (num_data_chunks W) (2 * nat (sint (num_inputs L)))
                  (unat (to_size_t (dim_n (input_dim L) * dim_c (input_dim L) *
                                    dim_h (input_dim L) * dim_w (input_dim L)))),
             num_data_chunks := num_data_chunks W + 2 * nat (sint (num_inputs L)),
             dev_free := dev_free W - 2 * nat (sint (num_inputs L)) *
                  (unat (to_size_t (dim_n (input_dim L) * dim_c (input_dim L) *
                                    dim_h (input_dim L) * dim_w (input_dim L))) * sizeof_T E)\<rparr>
   else L' = L \<and> W' = W"
proof (cases "standalone (input_dim L)")
  case False
  with assms show ?thesis
    by (auto simp: Layer_Setup_def standalone_def)
next
  case True
  let ?L1 = "L\<lparr>bottom_desc := DataTensor_Set (dim_n (input_dim L)) (dim_c (input_dim L))
                                    (dim_h (input_dim L)) (dim_w (input_dim L))\<rparr>"
  let ?b = "dim_n (input_dim L) * dim_c (input_dim L) * dim_h (input_dim L) * dim_w (input_dim L)"
  have "Setup_bottoms E ?b 0 (?L1, W) = Inr (L', W')"
    using assms True by (simp add: Layer_Setup_def standalone_def Let_def)
  from Setup_bottoms_Inr [OF this, of "nat (sint (num_inputs L))"] True show ?thesis
    by (simp add: DataTensor_Set_def)
qed

lemma Layer_Setup_frame:
  fixes L :: "'a Layer_scheme"
  assumes "Layer_Setup E (L, W) = Inr (L', W')"
  shows "input_dim L' = input_dim L" and "num_inputs L' = num_inputs L"
    and "Layer.more L' = Layer.more L"
    and "trace W' = trace W" and "dev_live W' = dev_live W" and "dev_next W' = dev_next W"
  using Layer_Setup_Inr [OF assms] by (auto split: if_splits)

lemma Setup_data_Inr:
  assumes "Setup_data E (L, W) = Inr (L', W')"
  shows "\<exists>Lo. ComputeOutputDim L = Inr Lo \<and>
     L' = Lo\<lparr>top_desc := Some (dim_n (output_dim Lo), dim_c (output_dim Lo),
                                  dim_h (output_dim Lo), dim_w (output_dim Lo)),
              top_chunk_ids := top_chunk_ids L @
                 fresh_ids (num_data_chunks W) (nat (sint (num_outputs L))),
              tops := tops L @
                 map ((!) (top_chunk_ids L @
                           fresh_ids (num_data_chunks W) (nat (sint (num_outputs L)))))
                   [0..<nat (sint (num_outputs L))],
              top_diff_chunk_ids := top_diff_chunk_ids L @
                 fresh_ids (Suc (num_data_chunks W)) (nat (sint (num_outputs L))),
              top_diffs := top_diffs L @
                 map ((!) (top_diff_chunk_ids L @
                           fresh_ids (Suc (num_data_chunks W)) (nat (sint (num_outputs L)))))
                   [0..<nat (sint (num_outputs L))],
              weights_chunk_id := Some (num_data_chunks W + 2 * nat (sint (num_outputs L))),
              weights := Some (num_data_chunks W + 2 * nat (sint (num_outputs L))),
              weights_diff_chunk_id :=
                 Some (Suc (num_data_chunks W + 2 * nat (sint (num_outputs L)))),
              weights_diff := Some (Suc (num_data_chunks W + 2 * nat (sint (num_outputs L))))\<rparr> \<and>
     gpu_data_pool W' = gpu_data_pool W @
        fresh_pool (num_data_chunks W) (2 * nat (sint (num_outputs L)))
          (unat (to_size_t (dim_n (output_dim Lo) * dim_c (output_dim Lo) *
                            dim_h (output_dim Lo) * dim_w (output_dim Lo)))) @
        [(num_data_chunks W + 2 * nat (sint (num_outputs L)),
          unat (to_size_t (output_num (conv_param L) * dim_c (input_dim L) *
                           kernel_size_h (conv_param L) * kernel_size_w (conv_param L)))),
         (Suc (num_data_chunks W + 2 * nat (sint (num_outputs L))),
          unat (to_size_t (output_num (conv_param L) * dim_c (input_dim L) *
                           kernel_size_h (conv_param L) * kernel_size_w (conv_param L))))] \<and>
     num_data_chunks W' = Suc (Suc (num_data_chunks W + 2 * nat (sint (num_outputs L)))) \<and>
     trace W' = trace W \<and> dev_live W' = dev_live W \<and> dev_next W' = dev_next W"
proof -
  from assms obtain Lo L3 W3 where
    c: "ComputeOutputDim L = Inr Lo"
    and t: "Setup_tops E (dim_n (output_dim Lo) * dim_c (output_dim Lo) *
                          dim_h (output_dim Lo) * dim_w (output_dim Lo)) 0
              (Lo\<lparr>top_desc := DataTensor_Set (dim_n (output_dim Lo)) (dim_c (output_dim Lo))
                                 (dim_h (output_dim Lo)) (dim_w (output_dim Lo))\<rparr>, W) =
            Inr (L3, W3)"
    and w: "and_then (CreateData E (to_size_t (output_num (conv_param L3) * dim_c (input_dim L3) *
                         kernel_size_h (conv_param L3) * kernel_size_w (conv_param L3))) W3)
             (\<lambda>(id1, W4).
      let L4 = L3\<lparr>weights_chunk_id := Some id1\<rparr> in
      and_then (GetData id1 W4) (\<lambda>p1.
      let L5 = L4\<lparr>weights := Some p1\<rparr> in
      and_then (CreateData E (to_size_t (output_num (conv_param L3) * dim_c (input_dim L3) *
                         kernel_size_h (conv_param L3) * kernel_size_w (conv_param L3))) W4)
             (\<lambda>(id2, W5).
      let L6 = L5\<lparr>weights_diff_chunk_id := Some id2\<rparr> in
      and_then (GetData id2 W5) (\<lambda>p2.
      Inr (L6\<lparr>weights_diff := Some p2\<rparr>, W5))))) = Inr (L', W')"
    by (auto simp: Setup_data_def and_then_Inr_iff Let_def)
  from ComputeOutputDim_Inr [OF c] have Lo: "input_dim Lo = input_dim L"
    "conv_param Lo = conv_param L" "num_outputs Lo = num_outputs L"
    "top_chunk_ids Lo = top_chunk_ids L" "tops Lo = tops L"
    "top_diff_chunk_ids Lo = top_diff_chunk_ids L" "top_diffs Lo = top_diffs L"
    by auto
  note T = Setup_tops_Inr [OF t, of "nat (sint (num_outputs L))", simplified Lo, simplified]
  from w T show ?thesis
    apply (intro exI [of _ Lo] conjI c)
    by (auto simp: and_then_Inr_iff CreateData_Inr GetData_Inr Let_def Lo DataTensor_Set_def)
qed

lemma cudaMalloc_Inr:
  "cudaMalloc sz W = Inr (p, W') \<longleftrightarrow>
     unat sz \<le> dev_free W \<and> p = dev_next W \<and>
     W' = W\<lparr>dev_free := dev_free W - unat sz,
            dev_live := dev_live W @ [(dev_next W, unat sz)],
            dev_next := Suc (dev_next W),
            trace := trace W @ [EvMalloc sz (dev_next W)]\<rparr>"
  by (auto simp: cudaMalloc_def)

lemma Layer_Setup_frame_conv:
  fixes L :: ConvolutionLayer
  assumes "Layer_Setup E (L, W) = Inr (L', W')"
  shows "conv_param L' = conv_param L" and "num_outputs L' = num_outputs L"
    and "top_chunk_ids L' = top_chunk_ids L" and "tops L' = tops L"
    and "top_diff_chunk_ids L' = top_diff_chunk_ids L" and "top_diffs L' = top_diffs L"
    and "top_desc L' = top_desc L" and "output_dim L' = output_dim L"
  using Layer_Setup_Inr [OF assms] by (auto split: if_splits)

lemma Setup_tail_Inr:
  assumes "(case cudnnGetConvolutionForwardAlgorithm E (bottom_desc L2) (desc L2) (desc L2)
            (top_desc L2) (conv_fwd_pref (conv_param L2)) (- 1) of
       None \<Rightarrow> Inl AlgorithmSelectionFailed
     | Some algo \<Rightarrow>
     let L3 = L2\<lparr>fwd_algo := Some algo\<rparr> in
     (case cudnnGetConvolutionForwardWorkspaceSize E (bottom_desc L3) (desc L3) (desc L3)
            (top_desc L3) algo of
       None \<Rightarrow> Inl WorkspaceQueryFailed
     | Some ws \<Rightarrow>
     let L4 = L3\<lparr>fwd_workspace_size := Some ws\<rparr> in
     and_then (cudaMalloc ws W2) (\<lambda>(p, W3).
     Inr (L4\<lparr>workspace := Some p\<rparr>, W3)))) = Inr (L', W')"
  shows "\<exists>algo ws.
     cudnnGetConvolutionForwardAlgorithm E (bottom_desc L2) (desc L2) (desc L2) (top_desc L2)
        (conv_fwd_pref (conv_param L2)) (- 1) = Some algo \<and>
     cudnnGetConvolutionForwardWorkspaceSize E (bottom_desc L2) (desc L2) (desc L2) (top_desc L2)
        algo = Some ws \<and>
     unat ws \<le> dev_free W2 \<and>
     L' = L2\<lparr>fwd_algo := Some algo, fwd_workspace_size := Some ws,
              workspace := Some (dev_next W2)\<rparr> \<and>
     W' = W2\<lparr>dev_free := dev_free W2 - unat ws,
              dev_live := dev_live W2 @ [(dev_next W2, unat ws)],
              dev_next := Suc (dev_next W2),
              trace := trace W2 @ [EvMalloc ws (dev_next W2)]\<rparr>"
  using assms
  by (simp add: Let_def and_then_Inr_iff cudaMalloc_Inr split: option.splits)

lemma ConvolutionLayer_Setup_Inr:
  assumes "ConvolutionLayer_Setup E (L, W) = Inr (L', W')"
  shows "\<exists>L1 W1 L2 W2 algo ws.
     Layer_Setup E (L, W) = Inr (L1, W1) \<and>
     (if standalone (input_dim L)
      then Setup_data E (L1\<lparr>desc := Some (conv_param L, dim_c (input_dim L))\<rparr>, W1) = Inr (L2, W2)
      else L2 = L1\<lparr>desc := Some (conv_param L, dim_c (input_dim L))\<rparr> \<and> W2 = W1) \<and>
     cudnnGetConvolutionForwardAlgorithm E (bottom_desc L2) (desc L2) (desc L2) (top_desc L2)
        (conv_fwd_pref (conv_param L2)) (- 1) = Some algo \<and>
     cudnnGetConvolutionForwardWorkspaceSize E (bottom_desc L2) (desc L2) (desc L2) (top_desc L2)
        algo = Some ws \<and>
     unat ws \<le> dev_free W2 \<and>
     L' = L2\<lparr>fwd_algo := Some algo, fwd_workspace_size := Some ws,
              workspace := Some (dev_next W2)\<rparr> \<and>
     W' = W2\<lparr>dev_free := dev_free W2 - unat ws,
              dev_live := dev_live W2 @ [(dev_next W2, unat ws)],
              dev_next := Suc (dev_next W2),
              trace := trace W2 @ [EvMalloc ws (dev_next W2)]\<rparr>"
proof -
  from assms obtain L1 W1 where ls: "Layer_Setup E (L, W) = Inr (L1, W1)"
    by (auto simp: ConvolutionLayer_Setup_def and_then_Inr_iff)
  note fr = Layer_Setup_frame [OF ls] Layer_Setup_frame_conv [OF ls]
  let ?L1 = "L1\<lparr>desc := Some (conv_param L1, dim_c (input_dim L1))\<rparr>"
  have L1: "?L1 = L1\<lparr>desc := Some (conv_param L, dim_c (input_dim L))\<rparr>"
    by (simp add: fr(1) fr(7))
  from assms ls obtain L2 W2 where
    mid: "(if dim_n (input_dim ?L1) \<noteq> 0 \<and> dim_c (input_dim ?L1) \<noteq> 0 \<and>
              dim_h (input_dim ?L1) \<noteq> 0 \<and> dim_w (input_dim ?L1) \<noteq> 0
           then Setup_data E (?L1, W1) else Inr (?L1, W1)) = Inr (L2, W2)"
    and tail: "(case cudnnGetConvolutionForwardAlgorithm E (bottom_desc L2) (desc L2) (desc L2)
            (top_desc L2) (conv_fwd_pref (conv_param L2)) (- 1) of
       None \<Rightarrow> Inl AlgorithmSelectionFailed
     | Some algo \<Rightarrow>
     let L3 = L2\<lparr>fwd_algo := Some algo\<rparr> in
     (case cudnnGetConvolutionForwardWorkspaceSize E (bottom_desc L3) (desc L3) (desc L3)
            (top_desc L3) algo of
       None \<Rightarrow> Inl WorkspaceQueryFailed
     | Some ws \<Rightarrow>
     let L4 = L3\<lparr>fwd_workspace_size := Some ws\<rparr> in
     and_then (cudaMalloc ws W2) (\<lambda>(p, W3).
     Inr (L4\<lparr>workspace := Some p\<rparr>, W3)))) = Inr (L', W')"
    by (simp add: ConvolutionLayer_Setup_def and_then_Inr_iff ConvolutionDesc_Set_def
        Let_def) blast
  have mid': "if standalone (input_dim L) then Setup_data E (?L1, W1) = Inr (L2, W2)
              else L2 = ?L1 \<and> W2 = W1"
    using mid by (cases "standalone (input_dim L)") (auto simp: standalone_def fr(1))
  from Setup_tail_Inr [OF tail] ls mid' show ?thesis
    unfolding L1 by blast
qed

lemma ConvolutionLayer_Setup_standalone_Inr:
  fixes L L' :: ConvolutionLayer and W W' :: World and E :: Env
  defines "k \<equiv> nat (sint (num_inputs L))"
    and "k' \<equiv> nat (sint (num_outputs L))"
    and "h \<equiv> num_data_chunks W"
  assumes st: "standalone (input_dim L)"
    and run: "ConvolutionLayer_Setup E (L, W) = Inr (L', W')"
  shows "weights_chunk_id L' = Some (h + 2 * k + 2 * k')"
    and "weights L' = Some (h + 2 * k + 2 * k')"
    and "weights_diff_chunk_id L' = Some (Suc (h + 2 * k + 2 * k'))"
    and "weights_diff L' = Some (Suc (h + 2 * k + 2 * k'))"
    and "gpu_data_pool W' = gpu_data_pool W @
        fresh_pool h (2 * k)
          (unat (to_size_t (dim_n (input_dim L) * dim_c (input_dim L) *
                            dim_h (input_dim L) * dim_w (input_dim L)))) @
        fresh_pool (h + 2 * k) (2 * k')
          (unat (to_size_t (dim_n (output_dim L') * dim_c (output_dim L') *
                            dim_h (output_dim L') * dim_w (output_dim L')))) @
        [(h + 2 * k + 2 * k',
          unat (to_size_t (output_num (conv_param L) * dim_c (input_dim L) *
                           kernel_size_h (conv_param L) * kernel_size_w (conv_param L)))),
         (Suc (h + 2 * k + 2 * k'),
          unat (to_size_t (output_num (conv_param L) * dim_c (input_dim L) *
                           kernel_size_h (conv_param L) * kernel_size_w (conv_param L))))]"
    and "num_data_chunks W' = Suc (Suc (h + 2 * k + 2 * k'))"
proof -
  from ConvolutionLayer_Setup_Inr [OF run] st obtain L1 W1 L2 W2 algo ws where
    ls: "Layer_Setup E (L, W) = Inr (L1, W1)"
    and sd: "Setup_data E (L1\<lparr>desc := Some (conv_param L, dim_c (input_dim L))\<rparr>, W1) = Inr (L2, W2)"
    and L': "L' = L2\<lparr>fwd_algo := Some algo, fwd_workspace_size := Some ws,
              workspace := Some (dev_next W2)\<rparr>"
    and W': "W' = W2\<lparr>dev_free := dev_free W2 - unat ws,
              dev_live := dev_live W2 @ [(dev_next W2, unat ws)],
              dev_next := Suc (dev_next W2),
              trace := trace W2 @ [EvMalloc ws (dev_next W2)]\<rparr>"
    by auto
  note fr = Layer_Setup_frame [OF ls] Layer_Setup_frame_conv [OF ls]
  from Layer_Setup_Inr [OF ls] st have
    W1: "gpu_data_pool W1 = gpu_data_pool W @ fresh_pool h (2 * k)
          (unat (to_size_t (dim_n (input_dim L) * dim_c (input_dim L) *
                            dim_h (input_dim L) * dim_w (input_dim L))))"
      "num_data_chunks W1 = h + 2 * k"
    by (simp_all add: k_def h_def)
  from Setup_data_Inr [OF sd] obtain Lo where
    Lo: "ComputeOutputDim (L1\<lparr>desc := Some (conv_param L, dim_c (input_dim L))\<rparr>) = Inr Lo"
    and L2: "weights_chunk_id L2 = Some (num_data_chunks W1 + 2 * k')"
      "weights L2 = Some (num_data_chunks W1 + 2 * k')"
      "weights_diff_chunk_id L2 = Some (Suc (num_data_chunks W1 + 2 * k'))"
      "weights_diff L2 = Some (Suc (num_data_chunks W1 + 2 * k'))"
      "output_dim L2 = output_dim Lo"
    and W2: "gpu_data_pool W2 = gpu_data_pool W1 @
        fresh_pool (num_data_chunks W1) (2 * k')
          (unat (to_size_t (dim_n (output_dim Lo) * dim_c (output_dim Lo) *
                            dim_h (output_dim Lo) * dim_w (output_dim Lo)))) @
        [(num_data_chunks W1 + 2 * k',
          unat (to_size_t (output_num (conv_param L) * dim_c (input_dim L) *
                           kernel_size_h (conv_param L) * kernel_size_w (conv_param L)))),
         (Suc (num_data_chunks W1 + 2 * k'),
          unat (to_size_t (output_num (conv_param L) * dim_c (input_dim L) *
                           kernel_size_h (conv_param L) * kernel_size_w (conv_param L))))]"
      "num_data_chunks W2 = Suc (Suc (num_data_chunks W1 + 2 * k'))"
    by (auto simp: fr k'_def)
  show "weights_chunk_id L' = Some (h + 2 * k + 2 * k')"
    and "weights L' = Some (h + 2 * k + 2 * k')"
    and "weights_diff_chunk_id L' = Some (Suc (h + 2 * k + 2 * k'))"
    and "weights_diff L' = Some (Suc (h + 2 * k + 2 * k'))"
    and "num_data_chunks W' = Suc (Suc (h + 2 * k + 2 * k'))"
    by (simp_all add: L' W' L2 W2 W1)
  show "gpu_data_pool W' = gpu_data_pool W @
        fresh_pool h (2 * k)
          (unat (to_size_t (dim_n (input_dim L) * dim_c (input_dim L) *
                            dim_h (input_dim L) * dim_w (input_dim L)))) @
        fresh_pool (h + 2 * k) (2 * k')
          (unat (to_size_t (dim_n (output_dim L') * dim_c (output_dim L') *
                            dim_h (output_dim L') * dim_w (output_dim L')))) @
        [(h + 2 * k + 2 * k',
          unat (to_size_t (output_num (conv_param L) * dim_c (input_dim L) *
                           kernel_size_h (conv_param L) * kernel_size_w (conv_param L)))),
         (Suc (h + 2 * k + 2 * k'),
          unat (to_size_t (output_num (conv_param L) * dim_c (input_dim L) *
                           kernel_size_h (conv_param L) * kernel_size_w (conv_param L))))]"
    by (simp add: L' W' L2 W2 W1)
qed

lemma ConvolutionLayer_Setup_trace:
  assumes "ConvolutionLayer_Setup E (L, W) = Inr (L', W')"
  shows "\<exists>ws p. fwd_workspace_size L' = Some ws \<and> workspace L' = Some p \<and>
           trace W' = trace W @ [EvMalloc ws p] \<and>
           cudnnGetConvolutionForwardWorkspaceSize E (bottom_desc L') (desc L') (desc L')
             (top_desc L') (the (fwd_algo L')) = Some ws \<and>
           cudnnGetConvolutionForwardAlgorithm E (bottom_desc L') (desc L') (desc L')
             (top_desc L') (conv_fwd_pref (conv_param L')) (- 1) = fwd_algo L' \<and>
           fwd_algo L' \<noteq> None \<and>
           dev_live W' = dev_live W @ [(p, unat ws)] \<and> p = dev_next W"
proof -
  from ConvolutionLayer_Setup_Inr [OF assms] obtain L1 W1 L2 W2 algo ws where
    ls: "Layer_Setup E (L, W) = Inr (L1, W1)"
    and sd: "if standalone (input_dim L)
      then Setup_data E (L1\<lparr>desc := Some (conv_param L, dim_c (input_dim L))\<rparr>, W1) = Inr (L2, W2)
      else L2 = L1\<lparr>desc := Some (conv_param L, dim_c (input_dim L))\<rparr> \<and> W2 = W1"
    and q: "cudnnGetConvolutionForwardAlgorithm E (bottom_desc L2) (desc L2) (desc L2) (top_desc L2)
        (conv_fwd_pref (conv_param L2)) (- 1) = Some algo"
      "cudnnGetConvolutionForwardWorkspaceSize E (bottom_desc L2) (desc L2) (desc L2) (top_desc L2)
        algo = Some ws"
    and L': "L' = L2\<lparr>fwd_algo := Some algo, fwd_workspace_size := Some ws,
              workspace := Some (dev_next W2)\<rparr>"
    and W': "W' = W2\<lparr>dev_free := dev_free W2 - unat ws,
              dev_live := dev_live W2 @ [(dev_next W2, unat ws)],
              dev_next := Suc (dev_next W2),
              trace := trace W2 @ [EvMalloc ws (dev_next W2)]\<rparr>"
    by blast
  note fr = Layer_Setup_frame [OF ls]
  have "trace W2 = trace W1 \<and> dev_live W2 = dev_live W1 \<and> dev_next W2 = dev_next W1"
  proof (cases "standalone (input_dim L)")
    case True
    with sd Setup_data_Inr show ?thesis by metis
  next
    case False
    with sd show ?thesis by simp
  qed
  with fr q show ?thesis
    by (simp add: L' W')
qed

lemmas eval_defs = scenario_layer_def layer_new_defs Env_const_def World_new_def
  ConvolutionLayer_Setup_def Layer_Setup_def Setup_bottoms.simps Setup_bottom_def
  Setup_data_def ComputeOutputDim_def int_div_def signed_divide_int_def Setup_tops.simps
  Setup_top_def CreateData_def GetData_def at_def cudaMalloc_def to_size_t_def
  DataTensor_Set_def ConvolutionDesc_Set_def Let_def

lemma scenario_Setup:
  "ConvolutionLayer_Setup (Env_const 4 7 0) (scenario_layer, World_new 10000) =
   Inr (scenario_ready, scenario_world)"
  by (simp add: scenario_ready_def scenario_world_def eval_defs)

text \<open>
  C6 (as amended). Whenever the convolution \<open>Setup\<close> completes in standalone mode, the
  registry has gained two buffers for each input, two for each output and, after them,
  exactly two more: the weight buffer and the weight-gradient buffer, whose handles the
  layer records, whatever \<open>num_inputs\<close> is. Both have the size
  \<open>output_num * input channels * kernel_h * kernel_w\<close> computed in 32-bit \<open>int\<close>
  arithmetic, which is the mathematical product whenever the four factors are positive
  and the product is below \<open>2^31\<close>.
\<close>

theorem ConvolutionLayer_Setup_one_weight_set:
  fixes L L' :: ConvolutionLayer and W W' :: World and E :: Env
  defines "k \<equiv> nat (sint (num_inputs L))"
    and "k' \<equiv> nat (sint (num_outputs L))"
    and "h \<equiv> num_data_chunks W"
    and "weights_size \<equiv> output_num (conv_param L) * dim_c (input_dim L) *
                          kernel_size_h (conv_param L) * kernel_size_w (conv_param L)"
  assumes "standalone (input_dim L)"
    and "ConvolutionLayer_Setup E (L, W) = Inr (L', W')"
  shows "weights_chunk_id L' = Some (h + 2 * k + 2 * k') \<and>
         weights L' = Some (h + 2 * k + 2 * k') \<and>
         weights_diff_chunk_id L' = Some (Suc (h + 2 * k + 2 * k')) \<and>
         weights_diff L' = Some (Suc (h + 2 * k + 2 * k')) \<and>
         (\<exists>bottom_size top_size.
            gpu_data_pool W' = gpu_data_pool W @
              fresh_pool h (2 * k) bottom_size @
              fresh_pool (h + 2 * k) (2 * k') top_size @
              [(h + 2 * k + 2 * k', unat (to_size_t weights_size)),
               (Suc (h + 2 * k + 2 * k'), unat (to_size_t weights_size))]) \<and>
         num_data_chunks W' = Suc (Suc (h + 2 * k + 2 * k')) \<and>
         (0 < sint (output_num (conv_param L)) \<and> 0 < sint (dim_c (input_dim L)) \<and>
          0 < sint (kernel_size_h (conv_param L)) \<and> 0 < sint (kernel_size_w (conv_param L)) \<and>
          sint (output_num (conv_param L)) * sint (dim_c (input_dim L)) *
          sint (kernel_size_h (conv_param L)) * sint (kernel_size_w (conv_param L)) < 2 ^ 31 \<longrightarrow>
          int (unat (to_size_t weights_size)) =
            sint (output_num (conv_param L)) * sint (dim_c (input_dim L)) *
            sint (kernel_size_h (conv_param L)) * sint (kernel_size_w (conv_param L)))"
proof -
  note r = ConvolutionLayer_Setup_standalone_Inr [OF assms(5,6)]
  let ?P = "sint (output_num (conv_param L)) * sint (dim_c (input_dim L)) *
            sint (kernel_size_h (conv_param L)) * sint (kernel_size_w (conv_param L))"
  have size: "int (unat (to_size_t weights_size)) = ?P"
    if pos: "0 < sint (output_num (conv_param L))" "0 < sint (dim_c (input_dim L))"
       "0 < sint (kernel_size_h (conv_param L))" "0 < sint (kernel_size_w (conv_param L))"
      and lt: "?P < 2 ^ 31"
  proof -
    from pos have P: "0 < ?P" by simp
    with lt have "sint weights_size = ?P"
      unfolding weights_size_def by (intro sint_prod4) simp_all
    with P show ?thesis
      by (subst to_size_t_nonneg) simp_all
  qed
  from r size show ?thesis
    unfolding k_def k'_def h_def weights_size_def by blast
qed

theorem ConvolutionLayer_Setup_one_weight_set_witness:
  "standalone (input_dim scenario_layer) \<and>
   ConvolutionLayer_Setup (Env_const 4 7 0) (scenario_layer, World_new 10000) =
     Inr (scenario_ready, scenario_world) \<and>
   weights_chunk_id scenario_ready = Some 4 \<and> weights_diff_chunk_id scenario_ready = Some 5 \<and>
   num_data_chunks scenario_world = 6 \<and>
   int (unat (to_size_t (output_num (conv_param scenario_layer) *
                         dim_c (input_dim scenario_layer) *
                         kernel_size_h (conv_param scenario_layer) *
                         kernel_size_w (conv_param scenario_layer)))) = 108"
proof -
  have st: "standalone (input_dim scenario_layer)"
    by (simp add: standalone_def scenario_layer_def layer_new_defs)
  from ConvolutionLayer_Setup_one_weight_set [OF st scenario_Setup] st scenario_Setup
  show ?thesis
    by (simp add: scenario_layer_def layer_new_defs World_new_def)
qed

text \<open>
  The claim as the specification states it fails where the product does not fit an
  \<open>int\<close>: with 65536 input channels, 65536 output channels and a 1x1 kernel the
  product is \<open>2^32\<close>, the \<open>int\<close> that \<open>Setup\<close> computes is \<open>0\<close>, and the
  weight buffer and its gradient (handles 4 and 5) have no elements.
\<close>

theorem ConvolutionLayer_Setup_weights_size_counterexample:
  "standalone (input_dim wide_weights_layer) \<and>
   sint (output_num (conv_param wide_weights_layer)) * sint (dim_c (input_dim wide_weights_layer)) *
   sint (kernel_size_h (conv_param wide_weights_layer)) *
   sint (kernel_size_w (conv_param wide_weights_layer)) = 4294967296 \<and>
   map_sum id (gpu_data_pool \<circ> snd)
     (ConvolutionLayer_Setup (Env_const 4 7 0) (wide_weights_layer, World_new 2000000)) =
     Inr [(0, 65536), (1, 65536), (2, 65536), (3, 65536), (4, 0), (5, 0)] \<and>
   map_sum id (weights_chunk_id \<circ> fst)
     (ConvolutionLayer_Setup (Env_const 4 7 0) (wide_weights_layer, World_new 2000000)) =
     Inr (Some 4) \<and>
   map_sum id (weights_diff_chunk_id \<circ> fst)
     (ConvolutionLayer_Setup (Env_const 4 7 0) (wide_weights_layer, World_new 2000000)) =
     Inr (Some 5)"
  by (simp add: wide_weights_layer_def standalone_def layer_new_defs Env_const_def World_new_def
      ConvolutionLayer_Setup_def Layer_Setup_def Setup_bottoms.simps Setup_bottom_def
      Setup_data_def ComputeOutputDim_def int_div_def signed_divide_int_def Setup_tops.simps
      Setup_top_def CreateData_def GetData_def at_def cudaMalloc_def to_size_t_def
      DataTensor_Set_def ConvolutionDesc_Set_def Let_def)

text \<open>
  C2 (as amended). Whenever the convolution \<open>Setup\<close> completes, it has made exactly one
  device allocation call for scratch memory, of the size the workspace query returned
  for the selected algorithm, whatever that size is: the call is not guarded, so a size
  of zero is passed to the allocator like any other.
\<close>

theorem ConvolutionLayer_Setup_workspace_malloc:
  assumes "ConvolutionLayer_Setup E (L, W) = Inr (L', W')"
  shows "\<exists>algo ws p.
           fwd_algo L' = Some algo \<and>
           cudnnGetConvolutionForwardWorkspaceSize E (bottom_desc L') (desc L') (desc L')
             (top_desc L') algo = Some ws \<and>
           fwd_workspace_size L' = Some ws \<and> workspace L' = Some p \<and>
           trace W' = trace W @ [EvMalloc ws p] \<and>
           dev_live W' = dev_live W @ [(p, unat ws)]"
  using ConvolutionLayer_Setup_trace [OF assms] by force

theorem ConvolutionLayer_Setup_workspace_malloc_witness:
  "ConvolutionLayer_Setup (Env_const 4 7 0) (scenario_layer, World_new 10000) =
     Inr (scenario_ready, scenario_world) \<and>
   (\<exists>algo ws p.
           fwd_algo scenario_ready = Some algo \<and>
           cudnnGetConvolutionForwardWorkspaceSize (Env_const 4 7 0) (bottom_desc scenario_ready)
             (desc scenario_ready) (desc scenario_ready)
             (top_desc scenario_ready) algo = Some ws \<and>
           fwd_workspace_size scenario_ready = Some ws \<and> workspace scenario_ready = Some p \<and>
           trace scenario_world = trace (World_new 10000) @ [EvMalloc ws p] \<and>
           dev_live scenario_world = dev_live (World_new 10000) @ [(p, unat ws)])"
  using ConvolutionLayer_Setup_workspace_malloc [OF scenario_Setup] scenario_Setup
  by blast

text \<open>
  The claim as the specification states it fails: in the scenario the workspace query
  returns zero, and \<open>Setup\<close> still calls \<open>cudaMalloc\<close>, with size zero.
\<close>

theorem ConvolutionLayer_Setup_zero_workspace_counterexample:
  "cudnnGetConvolutionForwardWorkspaceSize (Env_const 4 7 0) (Some (2, 3, 8, 8))
     (Some (conv_param scenario_layer, 3)) (Some (conv_param scenario_layer, 3))
     (Some (2, 4, 8, 8)) 7 = Some 0 \<and>
   ConvolutionLayer_Setup (Env_const 4 7 0) (scenario_layer, World_new 10000) =
     Inr (scenario_ready, scenario_world) \<and>
   trace (World_new 10000) = [] \<and> trace scenario_world = [EvMalloc 0 0] \<and>
   dev_live scenario_world = [(0, 0)]"
  using scenario_Setup by (simp add: Env_const_def World_new_def scenario_world_def)

subsection \<open>Forward propagation\<close>

lemma member_Inr: "member m = Inr x \<longleftrightarrow> m = Some x"
  by (cases m) (simp_all add: member_def)

lemma Fill_bottoms_Inr:
  assumes "Fill_bottoms i (L, W) = Inr (L', W')"
    and "k = nat (sint (num_inputs L) - int i)"
  shows "L' = L \<and>
         W' = W\<lparr>trace := trace W @ map (\<lambda>j. EvFiller (bottoms L ! j)) [i..<i + k]\<rparr> \<and>
         (0 < k \<longrightarrow> i + k \<le> length (bottoms L))"
  using assms
proof (induction k arbitrary: i W)
  case 0
  then have "\<not> int i < sint (num_inputs L)" by simp
  with 0 show ?case
    by (simp add: Fill_bottoms.simps)
next
  case (Suc k)
  then have lt: "int i < sint (num_inputs L)" by simp
  with Suc.prems(1) have len: "i < length (bottoms L)"
    and rest: "Fill_bottoms (Suc i) (L, Filler (bottoms L ! i) W) = Inr (L', W')"
    by (auto simp: Fill_bottoms.simps [of i] at_def split: sum.splits if_splits)
  have k: "k = nat (sint (num_inputs L) - int (Suc i))"
    using Suc.prems(2) by simp
  have upt: "[i..<i + Suc k] = i # [Suc i..<Suc i + k]"
    by (simp add: upt_conv_Cons)
  from Suc.IH [OF rest k] len show ?case
    unfolding upt by (cases k) (simp_all add: Filler_def)
qed

lemma Forward_one_Inr:
  assumes "Forward_one E i (L, W) = Inr (L', W')"
  shows "\<exists>wp algo ws ws_size.
           weights L = Some wp \<and> fwd_algo L = Some algo \<and> workspace L = Some ws \<and>
           fwd_workspace_size L = Some ws_size \<and> L' = L \<and>
           i < length (bottoms L) \<and> i < length (tops L) \<and>
           W' = W\<lparr>trace := trace W @
                   [EvConvolutionForward (forward_call L wp algo ws ws_size i)]\<rparr>"
  using assms
  by (auto simp: Forward_one_def and_then_Inr_iff member_Inr at_Inr forward_call_def
      DataType_one_def DataType_zero_def Let_def split: if_splits)

lemma Forward_all_Inr:
  assumes "Forward_all E i (L, W) = Inr (L', W')"
    and "k = nat (sint (num_inputs L) - int i)"
    and "weights L = Some wp" and "fwd_algo L = Some algo" and "workspace L = Some ws"
    and "fwd_workspace_size L = Some ws_size"
  shows "L' = L \<and>
         W' = W\<lparr>trace := trace W @
                map (\<lambda>j. EvConvolutionForward (forward_call L wp algo ws ws_size j))
                  [i..<i + k]\<rparr> \<and>
         (0 < k \<longrightarrow> i + k \<le> length (bottoms L) \<and> i + k \<le> length (tops L))"
  using assms(1,2)
proof (induction k arbitrary: i W)
  case 0
  then have "\<not> int i < sint (num_inputs L)" by simp
  with 0 show ?case
    by (simp add: Forward_all.simps)
next
  case (Suc k)
  then have lt: "int i < sint (num_inputs L)" by simp
  with Suc.prems(1) obtain L1 W1 where one: "Forward_one E i (L, W) = Inr (L1, W1)"
    and rest: "Forward_all E (Suc i) (L1, W1) = Inr (L', W')"
    by (auto simp: Forward_all.simps [of E i] split: sum.splits)
  from Forward_one_Inr [OF one] assms(3-6)
  have L1: "L1 = L"
    and W1: "W1 = W\<lparr>trace := trace W @
                   [EvConvolutionForward (forward_call L wp algo ws ws_size i)]\<rparr>"
    and len: "i < length (bottoms L)" "i < length (tops L)"
    by auto
  have k: "k = nat (sint (num_inputs L) - int (Suc i))"
    using Suc.prems(2) by simp
  have upt: "[i..<i + Suc k] = i # [Suc i..<Suc i + k]"
    by (simp add: upt_conv_Cons)
  from Suc.IH [OF rest [unfolded L1] k] len show ?case
    unfolding upt by (cases k) (simp_all add: W1)
qed

lemma cudaFree_Inr:
  assumes "cudaFree p W = Inr W'"
  shows "p \<in> fst ` set (dev_live W)" and "p \<notin> fst ` set (dev_live W')"
    and "trace W' = trace W @ [EvFree p]"
    and "gpu_data_pool W' = gpu_data_pool W"
proof -
  from assms obtain sz where m: "map_of (dev_live W) p = Some sz"
    and W': "W' = W\<lparr>dev_free := dev_free W + sz,
                 dev_live := filter (\<lambda>b. fst b \<noteq> p) (dev_live W),
                 trace := trace W @ [EvFree p]\<rparr>"
    by (auto simp: cudaFree_def split: option.splits)
  from m show "p \<in> fst ` set (dev_live W)"
    by (metis map_of_eq_None_iff option.distinct(1))
  show "p \<notin> fst ` set (dev_live W')" "trace W' = trace W @ [EvFree p]"
    "gpu_data_pool W' = gpu_data_pool W"
    by (auto simp: W')
qed

lemma ConvolutionLayer_ForwardPropagation_Inr:
  assumes "ConvolutionLayer_ForwardPropagation E (L, W) = Inr (L', W')"
    and "k = nat (sint (num_inputs L))"
  shows "\<exists>wp ws W3. weights L = Some wp \<and> workspace L = Some ws \<and> L' = L \<and>
           cudaFree ws W3 = Inr W' \<and> dev_live W3 = dev_live W \<and>
           k \<le> length (bottoms L) \<and> k \<le> length (tops L) \<and>
           (\<forall>algo ws_size. fwd_algo L = Some algo \<longrightarrow> fwd_workspace_size L = Some ws_size \<longrightarrow>
             trace W3 = trace W @ [EvFiller wp] @
               map (\<lambda>j. EvFiller (bottoms L ! j)) [0..<k] @ [EvProfilerStart] @
               map (\<lambda>j. EvConvolutionForward (forward_call L wp algo ws ws_size j)) [0..<k] @
               [EvProfilerStop])"
proof -
  from assms(1) obtain wp L1 W1 L2 W2 ws where
    wp: "weights L = Some wp"
    and fill: "Fill_bottoms 0 (L, Filler wp W) = Inr (L1, W1)"
    and fwd: "Forward_all E 0 (L1, cudaProfilerStart W1) = Inr (L2, W2)"
    and ws: "workspace L2 = Some ws"
    and free: "cudaFree ws (cudaProfilerStop W2) = Inr W'"
    and L': "L' = L2"
    by (auto simp: ConvolutionLayer_ForwardPropagation_def and_then_Inr_iff member_Inr Let_def)
  from Fill_bottoms_Inr [OF fill, of k] assms(2)
  have L1: "L1 = L"
    and W1: "W1 = W\<lparr>trace := trace W @ [EvFiller wp] @
                      map (\<lambda>j. EvFiller (bottoms L ! j)) [0..<k]\<rparr>"
    and lenb: "k \<le> length (bottoms L)"
    by (cases k; simp add: Filler_def)+
  have L2: "L2 = L \<and> k \<le> length (tops L)"
  proof (cases k)
    case 0
    with assms(2) have "\<not> int 0 < sint (num_inputs L)" by simp
    with fwd 0 show ?thesis
      by (simp add: Forward_all.simps [of E 0] L1)
  next
    case (Suc k')
    with assms(2) have "int 0 < sint (num_inputs L)" by simp
    with fwd obtain S1 where one: "Forward_one E 0 (L, cudaProfilerStart W1) = Inr S1"
      and rest: "Forward_all E (Suc 0) S1 = Inr (L2, W2)"
      by (auto simp: Forward_all.simps [of E 0] L1 split: sum.splits)
    from Forward_one_Inr [of E 0 L "cudaProfilerStart W1" "fst S1" "snd S1"] one
    obtain algo ws0 sz where "fwd_algo L = Some algo" "workspace L = Some ws0"
      "fwd_workspace_size L = Some sz"
      by auto
    from Forward_all_Inr [OF fwd [unfolded L1] _ wp this, of k] assms(2) Suc
    show ?thesis by simp
  qed
  then have lent: "k \<le> length (tops L)" and L2: "L2 = L"
    by simp_all
  have tr: "trace (cudaProfilerStop W2) = trace W @ [EvFiller wp] @
               map (\<lambda>j. EvFiller (bottoms L ! j)) [0..<k] @ [EvProfilerStart] @
               map (\<lambda>j. EvConvolutionForward (forward_call L wp algo ws ws_size j)) [0..<k] @
               [EvProfilerStop]"
    if "fwd_algo L = Some algo" "fwd_workspace_size L = Some ws_size" for algo ws_size
    using Forward_all_Inr [OF fwd [unfolded L1] _ wp that(1) ws [unfolded L2] that(2), of k]
      assms(2)
    by (simp add: W1 cudaProfilerStart_def cudaProfilerStop_def)
  have live: "dev_live (cudaProfilerStop W2) = dev_live W"
  proof (cases k)
    case 0
    with assms(2) have "\<not> int 0 < sint (num_inputs L)" by simp
    with fwd show ?thesis
      by (simp add: Forward_all.simps [of E 0] L1 W1 cudaProfilerStart_def cudaProfilerStop_def)
         (auto simp: cudaProfilerStart_def)
  next
    case (Suc k')
    with assms(2) have "int 0 < sint (num_inputs L)" by simp
    with fwd obtain S1 where one: "Forward_one E 0 (L, cudaProfilerStart W1) = Inr S1"
      by (auto simp: Forward_all.simps [of E 0] L1 split: sum.splits)
    from Forward_one_Inr [of E 0 L "cudaProfilerStart W1" "fst S1" "snd S1"] one
    obtain algo ws0 sz where a: "fwd_algo L = Some algo" "workspace L = Some ws0"
      "fwd_workspace_size L = Some sz"
      by auto
    from Forward_all_Inr [OF fwd [unfolded L1] _ wp a, of k] assms(2)
    show ?thesis
      by (simp add: W1 cudaProfilerStart_def cudaProfilerStop_def)
  qed
  from wp ws free L' L2 tr live lenb lent show ?thesis
    by blast
qed

lemmas forward_eval_defs = scenario_ready_def scenario_world_def scenario_layer_def
  layer_new_defs Env_const_def ConvolutionLayer_ForwardPropagation_def member_def
  Fill_bottoms.simps Forward_all.simps Forward_one_def at_def Filler_def
  cudaProfilerStart_def cudaProfilerStop_def cudaFree_def DataType_one_def DataType_zero_def
  Let_def

lemma scenario_Forward:
  "ConvolutionLayer_ForwardPropagation (Env_const 4 7 0) (scenario_ready, scenario_world) =
   Inr (scenario_ready,
        scenario_world\<lparr>dev_live := [],
          trace := [EvMalloc 0 0, EvFiller 4, EvFiller 0, EvProfilerStart,
                    EvConvolutionForward (forward_call scenario_ready 4 7 0 0 0),
                    EvProfilerStop, EvFree 0]\<rparr>)"
  by (simp add: forward_eval_defs forward_call_def)

lemma Fill_bottoms_Inl: "Fill_bottoms i S = Inl e \<Longrightarrow> e = MemoryFault"
proof (induction i S rule: Fill_bottoms.induct)
  case (1 i S)
  then show ?case
    by (simp add: Fill_bottoms.simps [of i S] at_def split: if_splits)
qed

lemma Forward_one_Inl: "Forward_one E i S = Inl e \<Longrightarrow> e = MemoryFault \<or> e = PrimitiveFailed"
  by (cases S)
     (auto simp: Forward_one_def and_then_def member_def at_def Let_def
       split: sum.splits option.splits if_splits)

lemma Forward_all_Inl: "Forward_all E i S = Inl e \<Longrightarrow> e = MemoryFault \<or> e = PrimitiveFailed"
proof (induction E i S rule: Forward_all.induct)
  case (1 E i S)
  show ?case
  proof (cases "Forward_one E i S")
    case (Inl e')
    with "1.prems" Forward_one_Inl [OF Inl] show ?thesis
      by (simp add: Forward_all.simps [of E i S] split: if_splits)
  next
    case (Inr S')
    with 1 show ?thesis
      by (simp add: Forward_all.simps [of E i S] split: if_splits)
  qed
qed

lemma cudaFree_Inl: "cudaFree p W = Inl e \<Longrightarrow> e = InvalidHandle"
  by (simp add: cudaFree_def split: option.splits)

lemma member_Inl: "member m = Inl e \<Longrightarrow> e = MemoryFault"
  by (simp add: member_def split: option.splits)

lemma ConvolutionLayer_ForwardPropagation_Inl:
  assumes "ConvolutionLayer_ForwardPropagation E S = Inl e"
  shows "e = MemoryFault \<or> e = PrimitiveFailed \<or> e = InvalidHandle"
  using assms
  by (cases S)
     (auto simp: ConvolutionLayer_ForwardPropagation_def and_then_def Let_def
       split: sum.splits prod.splits
       dest: member_Inl Fill_bottoms_Inl Forward_all_Inl cudaFree_Inl)

text \<open>
  C7. Whenever \<open>ForwardPropagation\<close> of the convolution layer completes, the workspace
  the layer points to was live on the device before the call and is not live after it:
  the last call made is the \<open>cudaFree\<close> of that pointer. The member still holds the
  freed address, and a further \<open>ForwardPropagation\<close> cannot complete.
\<close>

theorem ForwardPropagation_releases_workspace:
  assumes "ConvolutionLayer_ForwardPropagation E (L, W) = Inr (L', W')"
  shows "\<exists>p. workspace L = Some p \<and> p \<in> fst ` set (dev_live W) \<and>
           p \<notin> fst ` set (dev_live W') \<and> last (trace W') = EvFree p \<and>
           workspace L' = Some p \<and>
           (\<forall>S. ConvolutionLayer_ForwardPropagation E (L', W') \<noteq> Inr S)"
proof -
  from ConvolutionLayer_ForwardPropagation_Inr [OF assms refl] obtain wp p W3 where
    p: "workspace L = Some p" and L': "L' = L"
    and free: "cudaFree p W3 = Inr W'" and live: "dev_live W3 = dev_live W"
    by blast
  note f = cudaFree_Inr [OF free]
  have "ConvolutionLayer_ForwardPropagation E (L', W') \<noteq> Inr S" for S
  proof
    assume "ConvolutionLayer_ForwardPropagation E (L', W') = Inr S"
    then have "ConvolutionLayer_ForwardPropagation E (L, W') = Inr (fst S, snd S)"
      by (simp add: L')
    from ConvolutionLayer_ForwardPropagation_Inr [OF this refl] p obtain W4 W5 where
      "cudaFree p W4 = Inr W5" "dev_live W4 = dev_live W'"
      by auto
    with cudaFree_Inr(1) [of p W4 W5] f(2) show False
      by simp
  qed
  with p L' f live show ?thesis
    by auto
qed

theorem ForwardPropagation_releases_workspace_witness:
  "ConvolutionLayer_ForwardPropagation (Env_const 4 7 0) (scenario_ready, scenario_world) =
     Inr (scenario_ready,
        scenario_world\<lparr>dev_live := [],
          trace := [EvMalloc 0 0, EvFiller 4, EvFiller 0, EvProfilerStart,
                    EvConvolutionForward (forward_call scenario_ready 4 7 0 0 0),
                    EvProfilerStop, EvFree 0]\<rparr>) \<and>
   workspace scenario_ready = Some 0 \<and> 0 \<in> fst ` set (dev_live scenario_world)"
  using ForwardPropagation_releases_workspace [OF scenario_Forward] scenario_Forward
  by (simp add: scenario_ready_def scenario_world_def)

text \<open>
  C9. When \<open>ForwardPropagation\<close> completes on the layer that \<open>Setup\<close> has left, the calls
  it has made are: the fill of the weights, the fill of each input, the start of the
  profiler, one \<open>cudnnConvolutionForward\<close> for each input index \<open>0 .. num_inputs - 1\<close>
  in order, the stop of the profiler and the release of the workspace. Each forward call
  has \<open>alpha = 1\<close> and \<open>beta = 0\<close>, reads input \<open>i\<close> and the weights, writes output
  \<open>i\<close>, and uses the algorithm the query of \<open>Setup\<close> returned and the workspace
  \<open>Setup\<close> allocated, with its size.
\<close>

theorem ForwardPropagation_calls:
  fixes L0 L L' :: ConvolutionLayer and W0 W W' :: World and E :: Env
  defines "k \<equiv> nat (sint (num_inputs L))"
  assumes "ConvolutionLayer_Setup E (L0, W0) = Inr (L, W)"
    and "ConvolutionLayer_ForwardPropagation E (L, W) = Inr (L', W')"
  shows "\<exists>wp algo ws p.
      cudnnGetConvolutionForwardAlgorithm E (bottom_desc L) (desc L) (desc L) (top_desc L)
        (conv_fwd_pref (conv_param L)) (- 1) = Some algo \<and>
      cudnnGetConvolutionForwardWorkspaceSize E (bottom_desc L) (desc L) (desc L) (top_desc L)
        algo = Some ws \<and>
      trace W = trace W0 @ [EvMalloc ws p] \<and>
      weights L = Some wp \<and>
      k \<le> length (bottoms L) \<and> k \<le> length (tops L) \<and>
      trace W' = trace W @ [EvFiller wp] @
        map (\<lambda>j. EvFiller (bottoms L ! j)) [0..<k] @ [EvProfilerStart] @
        map (\<lambda>j. EvConvolutionForward (forward_call L wp algo p ws j)) [0..<k] @
        [EvProfilerStop, EvFree p] \<and>
      (\<forall>j. fc_alpha (forward_call L wp algo p ws j) = 1 \<and>
           fc_beta (forward_call L wp algo p ws j) = 0 \<and>
           fc_bottom (forward_call L wp algo p ws j) = bottoms L ! j \<and>
           fc_top (forward_call L wp algo p ws j) = tops L ! j \<and>
           fc_weights (forward_call L wp algo p ws j) = wp \<and>
           fc_algo (forward_call L wp algo p ws j) = algo \<and>
           fc_workspace (forward_call L wp algo p ws j) = p \<and>
           fc_workspace_size (forward_call L wp algo p ws j) = ws)"
proof -
  from ConvolutionLayer_Setup_trace [OF assms(2)] obtain algo ws p where
    s: "fwd_workspace_size L = Some ws" "workspace L = Some p"
      "trace W = trace W0 @ [EvMalloc ws p]"
      "cudnnGetConvolutionForwardWorkspaceSize E (bottom_desc L) (desc L) (desc L)
             (top_desc L) algo = Some ws"
      "cudnnGetConvolutionForwardAlgorithm E (bottom_desc L) (desc L) (desc L)
             (top_desc L) (conv_fwd_pref (conv_param L)) (- 1) = Some algo"
      "fwd_algo L = Some algo"
    by force
  from ConvolutionLayer_ForwardPropagation_Inr [OF assms(3), of k] s(1,2,6) obtain wp W3 where
    len: "k \<le> length (bottoms L)" "k \<le> length (tops L)"
    and f: "weights L = Some wp" "cudaFree p W3 = Inr W'"
      "trace W3 = trace W @ [EvFiller wp] @
               map (\<lambda>j. EvFiller (bottoms L ! j)) [0..<k] @ [EvProfilerStart] @
               map (\<lambda>j. EvConvolutionForward (forward_call L wp algo p ws j)) [0..<k] @
               [EvProfilerStop]"
    by (auto simp: k_def)
  from cudaFree_Inr(3) [OF f(2)] f(3)
  have "trace W' = trace W @ [EvFiller wp] @
        map (\<lambda>j. EvFiller (bottoms L ! j)) [0..<k] @ [EvProfilerStart] @
        map (\<lambda>j. EvConvolutionForward (forward_call L wp algo p ws j)) [0..<k] @
        [EvProfilerStop, EvFree p]"
    by simp
  with s f(1) len show ?thesis
    by (intro exI [of _ wp] exI [of _ algo] exI [of _ ws] exI [of _ p])
       (simp add: forward_call_def)
qed

theorem ForwardPropagation_calls_witness:
  "ConvolutionLayer_Setup (Env_const 4 7 0) (scenario_layer, World_new 10000) =
     Inr (scenario_ready, scenario_world) \<and>
   ConvolutionLayer_ForwardPropagation (Env_const 4 7 0) (scenario_ready, scenario_world) =
     Inr (scenario_ready,
        scenario_world\<lparr>dev_live := [],
          trace := [EvMalloc 0 0, EvFiller 4, EvFiller 0, EvProfilerStart,
                    EvConvolutionForward (forward_call scenario_ready 4 7 0 0 0),
                    EvProfilerStop, EvFree 0]\<rparr>) \<and>
   nat (sint (num_inputs scenario_ready)) = 1 \<and>
   fc_alpha (forward_call scenario_ready 4 7 0 0 0) = 1 \<and>
   fc_beta (forward_call scenario_ready 4 7 0 0 0) = 0"
  using ForwardPropagation_calls [OF scenario_Setup scenario_Forward]
    scenario_Setup scenario_Forward
  by (simp add: scenario_ready_def scenario_layer_def layer_new_defs forward_call_def)

text \<open>
  C3 (as amended). No layer keeps a ready state and no propagation call fails with
  \<open>NotReady\<close>, before or after \<open>Setup\<close>: \<open>ForwardPropagation\<close> and
  \<open>BackwardPropagation\<close> of the base class and \<open>BackwardPropagation\<close> of the convolution
  layer return normally in every state and change nothing, and \<open>ForwardPropagation\<close> of
  the convolution layer never ends in \<open>NotReady\<close>.
\<close>

theorem propagation_without_ready_state:
  fixes S :: "'a Layer_scheme \<times> World" and C :: "ConvolutionLayer \<times> World"
  shows "Layer_ForwardPropagation E S = Inr S \<and>
         Layer_BackwardPropagation E S = Inr S \<and>
         ConvolutionLayer_BackwardPropagation E C = Inr C \<and>
         ConvolutionLayer_ForwardPropagation E C \<noteq> Inl NotReady"
  using ConvolutionLayer_ForwardPropagation_Inl [of E C NotReady]
  by (auto simp: Layer_ForwardPropagation_def Layer_BackwardPropagation_def
      ConvolutionLayer_BackwardPropagation_def)

text \<open>
  The claim as the specification states it fails: on layers that are constructed and
  configured but not set up, three of the four propagation calls return normally, and
  the fourth stops at the read of the weight pointer that only \<open>Setup\<close> assigns.
\<close>

theorem propagation_before_Setup_counterexample:
  "Layer_ForwardPropagation (Env_const 4 7 0) (standalone_layer, World_new 4096) =
     Inr (standalone_layer, World_new 4096) \<and>
   Layer_BackwardPropagation (Env_const 4 7 0) (standalone_layer, World_new 4096) =
     Inr (standalone_layer, World_new 4096) \<and>
   ConvolutionLayer_BackwardPropagation (Env_const 4 7 0) (scenario_layer, World_new 10000) =
     Inr (scenario_layer, World_new 10000) \<and>
   ConvolutionLayer_ForwardPropagation (Env_const 4 7 0) (scenario_layer, World_new 10000) =
     Inl MemoryFault"
  by (simp add: Layer_ForwardPropagation_def Layer_BackwardPropagation_def
      ConvolutionLayer_BackwardPropagation_def ConvolutionLayer_ForwardPropagation_def
      scenario_layer_def layer_new_defs member_def)

end
